theory Spec2Isabelle
  imports Main
begin

section \<open>The bridge runtime of plugins/python/bridge\_runtime.py\<close>

text \<open>
  The runtime reads one command per input line, decodes it with \<^verbatim>\<open>json.loads\<close>,
  looks the command name up on the backend object with \<^verbatim>\<open>getattr\<close>, calls what it
  finds, and writes the \<^verbatim>\<open>json.dumps\<close> of a response record followed by a null
  byte. The embedding follows \<^verbatim>\<open>PythonBridge\<close> method by method.
\<close>

subsection \<open>Python values and exceptions\<close>

text \<open>
  The values a command, a parameter set or a handler result can be. A dict is an
  association list in insertion order (its keys are distinct in Python). A float is
  held as the text \<^verbatim>\<open>float.__repr__\<close> gives for it (\<open>''1.5''\<close>, \<open>''1e+16''\<close>,
  \<open>''nan''\<close>, \<open>''inf''\<close>, \<open>''-inf''\<close>): the encoder uses nothing else of a float.
  \<open>PObject c\<close> is an object of class \<open>c\<close> that is none of the above (what
  \<^verbatim>\<open>json.dumps\<close> rejects). Characters are the 256 code points \<open>char\<close> has.
\<close>

datatype pyval =
    PNone
  | PBool bool
  | PInt int
  | PFloat string
  | PStr string
  | PList "pyval list"
  | PDict "(pyval \<times> pyval) list"
  | PObject string

text \<open>
  An exception object: what \<^verbatim>\<open>str(e)\<close> gives and what \<^verbatim>\<open>traceback.format_exc()\<close>
  renders while it is handled. The runtime tells three kinds apart: a
  \<open>JSONDecodeError\<close>; any other instance of \<^verbatim>\<open>Exception\<close>; and a \<open>BaseException\<close> that
  is not an \<^verbatim>\<open>Exception\<close> (\<^verbatim>\<open>SystemExit\<close>, \<^verbatim>\<open>KeyboardInterrupt\<close>,
  \<^verbatim>\<open>asyncio.CancelledError\<close>), which no \<^verbatim>\<open>except Exception\<close> clause catches.
\<close>

datatype pyexc =
    JSONDecodeError string string
  | Exception string string
  | BaseException string string

fun str_exc :: "pyexc \<Rightarrow> string" where
  "str_exc (JSONDecodeError m tb) = m"
| "str_exc (Exception m tb) = m"
| "str_exc (BaseException m tb) = m"

fun format_exc :: "pyexc \<Rightarrow> string" where
  "format_exc (JSONDecodeError m tb) = tb"
| "format_exc (Exception m tb) = tb"
| "format_exc (BaseException m tb) = tb"

fun is_exception :: "pyexc \<Rightarrow> bool" where
  \<comment> \<open>\<^verbatim>\<open>isinstance(e, Exception)\<close>\<close>
  "is_exception (JSONDecodeError m tb) = True"
| "is_exception (Exception m tb) = True"
| "is_exception (BaseException m tb) = False"

text \<open>
  The places where the interpreter itself raises inside \<^verbatim>\<open>handle_command\<close>. The text
  of these exceptions belongs to the interpreter, so the environment supplies it.
\<close>

datatype fault =
    NoAttribute pyval string    \<comment> \<open>\<^verbatim>\<open>cmd.get\<close> on a value that is not a dict\<close>
  | AttrNameNotStr pyval        \<comment> \<open>\<^verbatim>\<open>getattr\<close> with a name that is not a string\<close>
  | NotSerializable pyval       \<comment> \<open>\<^verbatim>\<open>json.dumps\<close>: object of a type it does not encode\<close>
  | BadKey pyval                \<comment> \<open>\<^verbatim>\<open>json.dumps\<close>: dict key that is not str, int, float, bool or None\<close>
  | BadCall string "pyval option"
      \<comment> \<open>a call whose arguments do not fit the parameters of the method\<close>
  | NotJSONText pyval           \<comment> \<open>\<^verbatim>\<open>json.loads\<close> of a value that is not a string\<close>

text \<open>
  What the model takes from outside the repository: the decoder \<^verbatim>\<open>json.loads\<close> (a
  value or an exception), the text of the interpreter's own exceptions, and
  \<^verbatim>\<open>sys.version\<close>.
\<close>

record pyenv =
  json_loads :: "string \<Rightarrow> pyexc + pyval"
  fault_msg :: "fault \<Rightarrow> string"
  fault_tb :: "fault \<Rightarrow> string"
  sys_version :: string

definition raised :: "pyenv \<Rightarrow> fault \<Rightarrow> pyexc" where
  "raised env ft = Exception (fault_msg env ft) (fault_tb env ft)"

subsection \<open>The encoder: \<^verbatim>\<open>json.dumps\<close> with its default options\<close>

definition hexdigit :: "nat \<Rightarrow> char" where
  "hexdigit n = ''0123456789abcdef'' ! (n mod 16)"

definition hex4 :: "nat \<Rightarrow> string" where
  \<comment> \<open>\<^verbatim>\<open>'{0:04x}'.format(n)\<close>\<close>
  "hex4 n = [hexdigit (n div 4096 mod 16), hexdigit (n div 256 mod 16),
             hexdigit (n div 16 mod 16), hexdigit (n mod 16)]"

definition esc_char :: "char \<Rightarrow> string" where
  \<comment> \<open>\<^verbatim>\<open>ESCAPE_ASCII\<close> and \<^verbatim>\<open>ESCAPE_DCT\<close>: everything outside space..tilde is escaped\<close>
  "esc_char c =
     (if c = CHR 0x5C then [CHR 0x5C, CHR 0x5C]
      else if c = CHR 0x22 then [CHR 0x5C, CHR 0x22]
      else if c = CHR 0x08 then [CHR 0x5C, CHR ''b'']
      else if c = CHR 0x0C then [CHR 0x5C, CHR ''f'']
      else if c = CHR 0x0A then [CHR 0x5C, CHR ''n'']
      else if c = CHR 0x0D then [CHR 0x5C, CHR ''r'']
      else if c = CHR 0x09 then [CHR 0x5C, CHR ''t'']
      else if 32 \<le> (of_char c :: nat) \<and> (of_char c :: nat) \<le> 126 then [c]
      else [CHR 0x5C, CHR ''u''] @ hex4 (of_char c))"

definition encode_str :: "string \<Rightarrow> string" where
  \<comment> \<open>\<^verbatim>\<open>py_encode_basestring_ascii\<close>\<close>
  "encode_str s = [CHR 0x22] @ concat (map esc_char s) @ [CHR 0x22]"

fun dec :: "nat \<Rightarrow> string" where
  "dec n = (if n < 10 then [''0123456789'' ! n]
            else dec (n div 10) @ [''0123456789'' ! (n mod 10)])"

declare dec.simps [simp del]

definition int_repr :: "int \<Rightarrow> string" where
  \<comment> \<open>\<^verbatim>\<open>int.__repr__\<close>\<close>
  "int_repr i = (if i < 0 then CHR ''-'' # dec (nat (- i)) else dec (nat i))"

definition floatstr :: "string \<Rightarrow> string" where
  \<comment> \<open>\<^verbatim>\<open>floatstr\<close> with \<^verbatim>\<open>allow_nan=True\<close>, on the repr of the float\<close>
  "floatstr r =
     (if r = ''nan'' then ''NaN''
      else if r = ''inf'' then ''Infinity''
      else if r = ''-inf'' then ''-Infinity''
      else r)"

fun encode_key :: "pyval \<Rightarrow> fault + string" where
  \<comment> \<open>the key conversion of \<^verbatim>\<open>_iterencode_dict\<close> with \<^verbatim>\<open>skipkeys=False\<close>\<close>
  "encode_key (PStr s) = Inr (encode_str s)"
| "encode_key (PFloat r) = Inr (encode_str (floatstr r))"
| "encode_key (PBool b) = Inr (encode_str (if b then ''true'' else ''false''))"
| "encode_key PNone = Inr (encode_str ''null'')"
| "encode_key (PInt i) = Inr (encode_str (int_repr i))"
| "encode_key k = Inl (BadKey k)"

fun join :: "string \<Rightarrow> string list \<Rightarrow> string" where
  "join sep [] = []"
| "join sep [x] = x"
| "join sep (x # y # ys) = x @ sep @ join sep (y # ys)"

fun dumps :: "pyval \<Rightarrow> fault + string"
and dumps_list :: "pyval list \<Rightarrow> fault + string list"
and dumps_items :: "(pyval \<times> pyval) list \<Rightarrow> fault + string list" where
  "dumps PNone = Inr ''null''"
| "dumps (PBool b) = Inr (if b then ''true'' else ''false'')"
| "dumps (PInt i) = Inr (int_repr i)"
| "dumps (PFloat r) = Inr (floatstr r)"
| "dumps (PStr s) = Inr (encode_str s)"
| "dumps (PList xs) =
     (case dumps_list xs of Inl ft \<Rightarrow> Inl ft
      | Inr ts \<Rightarrow> Inr (''['' @ join '', '' ts @ '']''))"
| "dumps (PDict kvs) =
     (case dumps_items kvs of Inl ft \<Rightarrow> Inl ft
      | Inr ts \<Rightarrow> Inr (''{'' @ join '', '' ts @ ''}''))"
| "dumps (PObject c) = Inl (NotSerializable (PObject c))"
| "dumps_list [] = Inr []"
| "dumps_list (x # xs) =
     (case dumps x of Inl ft \<Rightarrow> Inl ft
      | Inr t \<Rightarrow> (case dumps_list xs of Inl ft \<Rightarrow> Inl ft | Inr ts \<Rightarrow> Inr (t # ts)))"
| "dumps_items [] = Inr []"
| "dumps_items ((k, v) # kvs) =
     (case encode_key k of Inl ft \<Rightarrow> Inl ft
      | Inr kt \<Rightarrow>
         (case dumps v of Inl ft \<Rightarrow> Inl ft
          | Inr vt \<Rightarrow>
             (case dumps_items kvs of Inl ft \<Rightarrow> Inl ft
              | Inr ts \<Rightarrow> Inr ((kt @ '': '' @ vt) # ts))))"


subsection \<open>The backend object\<close>

text \<open>
  \<^verbatim>\<open>__init__\<close> gives the object two attributes, \<^verbatim>\<open>state\<close> and \<^verbatim>\<open>_running\<close>; a subclass
  adds its own fields (\<open>user\<close>).
\<close>

record 'u inst =
  state :: pyval
  running :: bool
  user :: 'u

definition init :: "'u \<Rightarrow> 'u inst" where
  \<comment> \<open>\<^verbatim>\<open>PythonBridge.__init__\<close>\<close>
  "init u = \<lparr>state = PDict [], running = False, user = u\<rparr>"

text \<open>
  What a call of a method returns: a value, an awaitable (given by what
  \<^verbatim>\<open>run_until_complete\<close> makes of it), or an exception.
\<close>

datatype outcome =
    Return pyval
  | Await "pyexc + pyval"
  | Raise pyexc

text \<open>
  The two methods of \<^verbatim>\<open>PythonBridge\<close> that dispatch again, and so read the input
  stream and nest: a command can name them like any other attribute.
\<close>

datatype reentry = HandleCommand | Run

text \<open>
  An attribute of the backend object is a plain value, a callable, or one of the two
  methods above. A callable gets \<open>None\<close> for the call \<^verbatim>\<open>method()\<close> and \<open>Some params\<close>
  for the call \<^verbatim>\<open>method(**params)\<close> (so the \<^verbatim>\<open>TypeError\<close> of a \<^verbatim>\<open>params\<close> that does not
  fit is an outcome of the call), and gives the outcome, the object as the call leaves
  it, and the bytes the call itself wrote to standard output (through \<^verbatim>\<open>send_event\<close>
  or \<^verbatim>\<open>send_response\<close>).
\<close>

datatype 'u attr =
    Data pyval
  | Callable "pyval option \<Rightarrow> 'u inst \<Rightarrow> outcome \<times> 'u inst \<times> string"
  | Reentrant reentry

text \<open>
  A backend is given by the attributes its object has besides \<^verbatim>\<open>state\<close>, \<^verbatim>\<open>_running\<close>
  and the seven methods that \<^verbatim>\<open>PythonBridge\<close> defines: the methods and fields of the
  subclass (which may redefine any of the seven), and whatever else is reachable by
  name on the object.
\<close>

record 'u backend =
  members :: "'u inst \<Rightarrow> string \<Rightarrow> 'u attr option"

subsection \<open>Writing frames\<close>

definition utf8_encode :: "string \<Rightarrow> string" where
  \<comment> \<open>\<^verbatim>\<open>str.encode()\<close> on the code points below 256\<close>
  "utf8_encode s =
     concat (map (\<lambda>c. if (of_char c :: nat) < 128 then [c]
                       else [char_of (192 + (of_char c :: nat) div 64),
                             char_of (128 + (of_char c :: nat) mod 64)]) s)"

definition send_response :: "string \<Rightarrow> string" where
  \<comment> \<open>the bytes \<^verbatim>\<open>send_response\<close> writes\<close>
  "send_response response_json = utf8_encode response_json @ [CHR 0x00]"

definition send_event :: "pyenv \<Rightarrow> string \<Rightarrow> pyval \<Rightarrow> pyexc + string" where
  \<comment> \<open>the bytes \<^verbatim>\<open>send_event\<close> writes, or the exception of \<^verbatim>\<open>json.dumps\<close>\<close>
  "send_event env event_type data =
     (case dumps (PDict [(PStr ''cmd'', PStr event_type), (PStr ''status'', PStr ''event''),
                         (PStr ''result'', data)]) of
        Inl ft \<Rightarrow> Inl (raised env ft)
      | Inr t \<Rightarrow> Inr (send_response t))"

subsection \<open>The methods of \<^verbatim>\<open>PythonBridge\<close> as \<^verbatim>\<open>getattr\<close> finds them\<close>

definition ready :: "pyenv \<Rightarrow> pyval option \<Rightarrow> 'u inst \<Rightarrow> outcome \<times> 'u inst \<times> string" where
  "ready env args self =
     (case args of
        None \<Rightarrow> (Return (PDict [(PStr ''status'', PStr ''ready''),
                                (PStr ''python_version'', PStr (sys_version env))]), self, [])
      | Some params \<Rightarrow> (Raise (raised env (BadCall ''ready'' (Some params))), self, []))"

definition shutdown :: "pyenv \<Rightarrow> pyval option \<Rightarrow> 'u inst \<Rightarrow> outcome \<times> 'u inst \<times> string" where
  "shutdown env args self =
     (case args of
        None \<Rightarrow> (Return (PDict [(PStr ''status'', PStr ''shutdown'')]),
                 self\<lparr>running := False\<rparr>, [])
      | Some params \<Rightarrow> (Raise (raised env (BadCall ''shutdown'' (Some params))), self, []))"

definition bound_init :: "pyenv \<Rightarrow> pyval option \<Rightarrow> 'u inst \<Rightarrow> outcome \<times> 'u inst \<times> string" where
  \<comment> \<open>\<^verbatim>\<open>self.__init__()\<close> of \<^verbatim>\<open>PythonBridge\<close>\<close>
  "bound_init env args self =
     (case args of
        None \<Rightarrow> (Return PNone, self\<lparr>state := PDict [], running := False\<rparr>, [])
      | Some params \<Rightarrow> (Raise (raised env (BadCall ''__init__'' (Some params))), self, []))"

definition bound_send_response :: "pyenv \<Rightarrow> pyval option \<Rightarrow> 'u inst \<Rightarrow>
    outcome \<times> 'u inst \<times> string" where
  \<comment> \<open>\<^verbatim>\<open>self.send_response(response_json=...)\<close>; \<^verbatim>\<open>.encode()\<close> needs a string\<close>
  "bound_send_response env args self =
     (case args of
        Some (PDict [(PStr name, response_json)]) \<Rightarrow>
          if name = ''response_json''
          then (case response_json of
                  PStr s \<Rightarrow> (Return PNone, self, send_response s)
                | v \<Rightarrow> (Raise (raised env (NoAttribute v ''encode'')), self, []))
          else (Raise (raised env (BadCall ''send_response'' args)), self, [])
      | _ \<Rightarrow> (Raise (raised env (BadCall ''send_response'' args)), self, []))"

definition send_event_of :: "pyenv \<Rightarrow> pyval \<Rightarrow> pyval \<Rightarrow> 'u inst \<Rightarrow> outcome \<times> 'u inst \<times> string" where
  \<comment> \<open>the body of \<^verbatim>\<open>send_event\<close>, for an event type that need not be a string\<close>
  "send_event_of env event_type data self =
     (case dumps (PDict [(PStr ''cmd'', event_type), (PStr ''status'', PStr ''event''),
                         (PStr ''result'', data)]) of
        Inl ft \<Rightarrow> (Raise (raised env ft), self, [])
      | Inr t \<Rightarrow> (Return PNone, self, send_response t))"

definition bound_send_event :: "pyenv \<Rightarrow> pyval option \<Rightarrow> 'u inst \<Rightarrow>
    outcome \<times> 'u inst \<times> string" where
  \<comment> \<open>\<^verbatim>\<open>self.send_event(event_type=..., data=...)\<close>, the keywords in either order\<close>
  "bound_send_event env args self =
     (case args of
        Some (PDict [(PStr n1, v1), (PStr n2, v2)]) \<Rightarrow>
          if n1 = ''event_type'' \<and> n2 = ''data'' then send_event_of env v1 v2 self
          else if n1 = ''data'' \<and> n2 = ''event_type'' then send_event_of env v2 v1 self
          else (Raise (raised env (BadCall ''send_event'' args)), self, [])
      | _ \<Rightarrow> (Raise (raised env (BadCall ''send_event'' args)), self, []))"

definition getattr :: "pyenv \<Rightarrow> 'u backend \<Rightarrow> 'u inst \<Rightarrow> string \<Rightarrow> 'u attr option" where
  \<comment> \<open>\<^verbatim>\<open>getattr(self, name, None)\<close>: the object's own attributes, then the subclass, then
      \<^verbatim>\<open>PythonBridge\<close>; \<open>None\<close> when the name is not found\<close>
  "getattr env be self name =
     (if name = ''state'' then Some (Data (state self))
      else if name = ''_running'' then Some (Data (PBool (running self)))
      else (case members be self name of
              Some a \<Rightarrow> Some a
            | None \<Rightarrow>
               if name = ''ready'' then Some (Callable (ready env))
               else if name = ''shutdown'' then Some (Callable (shutdown env))
               else if name = ''__init__'' then Some (Callable (bound_init env))
               else if name = ''send_response'' then Some (Callable (bound_send_response env))
               else if name = ''send_event'' then Some (Callable (bound_send_event env))
               else if name = ''handle_command'' then Some (Reentrant HandleCommand)
               else if name = ''run'' then Some (Reentrant Run)
               else None))"

subsection \<open>\<^verbatim>\<open>handle_command\<close>, the receive loop and \<^verbatim>\<open>run\<close>\<close>

fun truthy :: "pyval \<Rightarrow> bool" where
  "truthy PNone = False"
| "truthy (PBool b) = b"
| "truthy (PInt i) = (i \<noteq> 0)"
| "truthy (PFloat r) = (r \<noteq> ''0.0'' \<and> r \<noteq> ''-0.0'')"
| "truthy (PStr s) = (s \<noteq> [])"
| "truthy (PList xs) = (xs \<noteq> [])"
| "truthy (PDict kvs) = (kvs \<noteq> [])"
| "truthy (PObject c) = True"

definition dict_get :: "(pyval \<times> pyval) list \<Rightarrow> string \<Rightarrow> pyval \<Rightarrow> pyval" where
  \<comment> \<open>\<^verbatim>\<open>d.get(key, default)\<close> with a string key\<close>
  "dict_get kvs key dflt = (case map_of kvs (PStr key) of Some v \<Rightarrow> v | None \<Rightarrow> dflt)"

text \<open>
  The result of \<^verbatim>\<open>handle_command\<close>: the returned text, or the exception that leaves
  the method; the object afterwards; the number of lines read from the input stream
  meanwhile (by a nested \<^verbatim>\<open>run\<close>); the bytes written meanwhile. The result of a call
  inside it has the outcome in the first place, and the result of \<^verbatim>\<open>run\<close> and of the
  loop the exception that ended it, if one did.
\<close>

type_synonym 'u result = "(pyexc + string) \<times> 'u inst \<times> nat \<times> string"

type_synonym 'u called = "outcome \<times> 'u inst \<times> nat \<times> string"

type_synonym 'u ran = "pyexc option \<times> 'u inst \<times> nat \<times> string"

definition except_decode :: "pyenv \<Rightarrow> 'u inst \<Rightarrow> nat \<Rightarrow> string \<Rightarrow> pyexc \<Rightarrow> 'u result" where
  \<comment> \<open>the clause \<^verbatim>\<open>except json.JSONDecodeError as e\<close>\<close>
  "except_decode env self k w e =
     (case dumps (PDict [(PStr ''id'', PInt 0), (PStr ''status'', PStr ''error''),
                         (PStr ''error'', PStr (''Invalid JSON: '' @ str_exc e))]) of
        Inr t \<Rightarrow> (Inr t, self, k, w)
      | Inl ft \<Rightarrow> (Inl (raised env ft), self, k, w))"

definition except_generic :: "pyenv \<Rightarrow> 'u inst \<Rightarrow> nat \<Rightarrow> string \<Rightarrow> pyexc \<Rightarrow> 'u result" where
  \<comment> \<open>the clause \<^verbatim>\<open>except Exception as e\<close> of the outer \<^verbatim>\<open>try\<close>\<close>
  "except_generic env self k w e =
     (case dumps (PDict [(PStr ''id'', PInt 0), (PStr ''status'', PStr ''error''),
                         (PStr ''error'', PStr (''Handler error: '' @ str_exc e)),
                         (PStr ''traceback'', PStr (format_exc e))]) of
        Inr t \<Rightarrow> (Inr t, self, k, w)
      | Inl ft \<Rightarrow> (Inl (raised env ft), self, k, w))"

definition except_outer :: "pyenv \<Rightarrow> 'u inst \<Rightarrow> nat \<Rightarrow> string \<Rightarrow> pyexc \<Rightarrow> 'u result" where
  \<comment> \<open>an exception in the outer \<^verbatim>\<open>try\<close>: the first clause that matches, or none\<close>
  "except_outer env self k w e =
     (case e of
        JSONDecodeError m tb \<Rightarrow> except_decode env self k w e
      | Exception m tb \<Rightarrow> except_generic env self k w e
      | BaseException m tb \<Rightarrow> (Inl e, self, k, w))"

definition return_dumps :: "pyenv \<Rightarrow> 'u inst \<Rightarrow> nat \<Rightarrow> string \<Rightarrow> pyval \<Rightarrow> 'u result" where
  \<comment> \<open>\<^verbatim>\<open>return json.dumps(response)\<close>, inside the outer \<^verbatim>\<open>try\<close>\<close>
  "return_dumps env self k w response =
     (case dumps response of
        Inr t \<Rightarrow> (Inr t, self, k, w)
      | Inl ft \<Rightarrow> except_generic env self k w (raised env ft))"

definition success :: "pyval \<Rightarrow> pyval \<Rightarrow> pyval" where
  "success request_id result =
     PDict [(PStr ''id'', request_id), (PStr ''status'', PStr ''success''),
            (PStr ''result'', result)]"

definition failure :: "pyval \<Rightarrow> pyexc \<Rightarrow> pyval" where
  \<comment> \<open>the clause \<^verbatim>\<open>except Exception as e\<close> of the inner \<^verbatim>\<open>try\<close>\<close>
  "failure request_id e =
     PDict [(PStr ''id'', request_id), (PStr ''status'', PStr ''error''),
            (PStr ''error'', PStr (str_exc e)), (PStr ''traceback'', PStr (format_exc e))]"

definition unknown_command :: "pyval \<Rightarrow> string \<Rightarrow> pyval" where
  "unknown_command request_id cmd_name =
     PDict [(PStr ''id'', request_id), (PStr ''status'', PStr ''error''),
            (PStr ''error'', PStr (''Unknown command: '' @ cmd_name))]"

definition not_callable :: "pyval \<Rightarrow> string \<Rightarrow> pyval" where
  "not_callable request_id cmd_name =
     PDict [(PStr ''id'', request_id), (PStr ''status'', PStr ''error''),
            (PStr ''error'', PStr (''Command is not callable: '' @ cmd_name))]"

definition arguments :: "pyval \<Rightarrow> pyval option" where
  \<comment> \<open>\<^verbatim>\<open>method(**params) if params else method()\<close>\<close>
  "arguments params = (if truthy params then Some params else None)"

definition call :: "(pyval option \<Rightarrow> 'u inst \<Rightarrow> outcome \<times> 'u inst \<times> string) \<Rightarrow> pyval \<Rightarrow>
    'u inst \<Rightarrow> 'u called" where
  "call method params self =
     (case method (if truthy params then Some params else None) self of
        (oc, self', w) \<Rightarrow> (oc, self', 0, w))"

definition raise_in_try :: "pyenv \<Rightarrow> pyval \<Rightarrow> pyexc \<Rightarrow> 'u inst \<Rightarrow> nat \<Rightarrow> string \<Rightarrow> 'u result" where
  \<comment> \<open>an exception in the inner \<^verbatim>\<open>try\<close>: \<^verbatim>\<open>except Exception\<close> answers it, or it leaves
      \<^verbatim>\<open>handle_command\<close> past both clauses of the outer \<^verbatim>\<open>try\<close>\<close>
  "raise_in_try env request_id e self k w =
     (if is_exception e then return_dumps env self k w (failure request_id e)
      else (Inl e, self, k, w))"

definition respond :: "pyenv \<Rightarrow> pyval \<Rightarrow> 'u called \<Rightarrow> 'u result" where
  \<comment> \<open>the inner \<^verbatim>\<open>try\<close> after the call: the awaitable resolved, the response record,
      and \<^verbatim>\<open>return json.dumps(response)\<close>\<close>
  "respond env request_id c =
     (case c of
        (Return result, self', k, w) \<Rightarrow> return_dumps env self' k w (success request_id result)
      | (Await (Inr result), self', k, w) \<Rightarrow>
          return_dumps env self' k w (success request_id result)
      | (Await (Inl e), self', k, w) \<Rightarrow> raise_in_try env request_id e self' k w
      | (Raise e, self', k, w) \<Rightarrow> raise_in_try env request_id e self' k w)"

definition cmd_json_of :: "pyval option \<Rightarrow> pyval option" where
  \<comment> \<open>the argument of \<^verbatim>\<open>handle_command(cmd_json=...)\<close>, when the arguments fit\<close>
  "cmd_json_of args =
     (case args of
        Some (PDict [(PStr name, v)]) \<Rightarrow> if name = ''cmd_json'' then Some v else None
      | _ \<Rightarrow> None)"

definition returned :: "'u result \<Rightarrow> 'u called" where
  \<comment> \<open>a nested \<^verbatim>\<open>handle_command\<close>, seen from the call\<close>
  "returned r =
     (case r of
        (Inr t, self', k, w) \<Rightarrow> (Return (PStr t), self', k, w)
      | (Inl e, self', k, w) \<Rightarrow> (Raise e, self', k, w))"

definition ended :: "'u ran \<Rightarrow> 'u called" where
  \<comment> \<open>a nested \<^verbatim>\<open>run\<close>, seen from the call\<close>
  "ended r =
     (case r of
        (None, self', k, w) \<Rightarrow> (Return PNone, self', k, w)
      | (Some e, self', k, w) \<Rightarrow> (Raise e, self', k, w))"

definition isspace :: "char \<Rightarrow> bool" where
  \<comment> \<open>\<^verbatim>\<open>str.isspace\<close> on the code points below 256\<close>
  "isspace c = (let n = (of_char c :: nat)
                in (9 \<le> n \<and> n \<le> 13) \<or> (28 \<le> n \<and> n \<le> 32) \<or> n = 133 \<or> n = 160)"

definition strip :: "string \<Rightarrow> string" where
  "strip s = rev (dropWhile isspace (rev (dropWhile isspace s)))"

text \<open>
  The body of \<^verbatim>\<open>handle_command\<close> up to the call of the method. The call is made here
  and the result returned, unless the command names \<^verbatim>\<open>handle_command\<close> or \<^verbatim>\<open>run\<close>
  with arguments that fit: then the call is left to be made, with the command's \<open>id\<close>
  for the response.
\<close>

datatype 'u dispatched =
    Done "'u result"
  | CallHandleCommand pyval string
  | CallRun pyval

definition dispatch :: "pyenv \<Rightarrow> 'u backend \<Rightarrow> 'u inst \<Rightarrow> string \<Rightarrow> 'u dispatched" where
  "dispatch env be self cmd_json =
     (case json_loads env cmd_json of
        Inl e \<Rightarrow> Done (except_outer env self 0 [] e)
      | Inr (PDict kvs) \<Rightarrow>
         (let cmd_name = dict_get kvs ''cmd'' (PStr []);
              params = dict_get kvs ''params'' (PDict []);
              request_id = dict_get kvs ''id'' (PInt 0)
          in case cmd_name of
               PStr name \<Rightarrow>
                 (case getattr env be self name of
                    None \<Rightarrow> Done (return_dumps env self 0 [] (unknown_command request_id name))
                  | Some (Data PNone) \<Rightarrow>
                      Done (return_dumps env self 0 [] (unknown_command request_id name))
                  | Some (Data v) \<Rightarrow>
                      Done (return_dumps env self 0 [] (not_callable request_id name))
                  | Some (Callable method) \<Rightarrow>
                      Done (respond env request_id (call method params self))
                  | Some (Reentrant HandleCommand) \<Rightarrow>
                      (case cmd_json_of (arguments params) of
                         None \<Rightarrow>
                           Done (respond env request_id
                             (Raise (raised env (BadCall ''handle_command'' (arguments params))),
                              self, 0, []))
                       | Some (PStr text) \<Rightarrow> CallHandleCommand request_id text
                       | Some v \<Rightarrow>
                           Done (respond env request_id
                             (returned (except_generic env self 0 []
                                          (raised env (NotJSONText v))))))
                  | Some (Reentrant Run) \<Rightarrow>
                      (case arguments params of
                         Some p \<Rightarrow>
                           Done (respond env request_id
                             (Raise (raised env (BadCall ''run'' (Some p))), self, 0, []))
                       | None \<Rightarrow> CallRun request_id))
             | v \<Rightarrow> Done (except_generic env self 0 [] (raised env (AttrNameNotStr v))))
      | Inr cmd \<Rightarrow> Done (except_generic env self 0 [] (raised env (NoAttribute cmd ''get''))))"

text \<open>
  \<^verbatim>\<open>handle_command\<close> takes the lines of the input stream not yet read, for the case that
  the command names \<^verbatim>\<open>run\<close>. Since a command can name \<^verbatim>\<open>handle_command\<close> and \<^verbatim>\<open>run\<close>,
  the three functions call each other; the first argument bounds the depth of that
  nesting, and the result is \<open>None\<close> when the bound is reached. A command that names
  neither needs no depth at all.
\<close>

fun handle_command :: "nat \<Rightarrow> pyenv \<Rightarrow> 'u backend \<Rightarrow> 'u inst \<Rightarrow> string list \<Rightarrow> string \<Rightarrow>
    'u result option"
and ipc_loop :: "nat \<Rightarrow> pyenv \<Rightarrow> 'u backend \<Rightarrow> 'u inst \<Rightarrow> string list \<Rightarrow> 'u ran option"
and run :: "nat \<Rightarrow> pyenv \<Rightarrow> 'u backend \<Rightarrow> 'u inst \<Rightarrow> string list \<Rightarrow> 'u ran option" where
  "handle_command depth env be self stdin cmd_json =
     (case dispatch env be self cmd_json of
        Done r \<Rightarrow> Some r
      | CallHandleCommand request_id text \<Rightarrow>
         (case depth of
            0 \<Rightarrow> None
          | Suc d \<Rightarrow>
             (case handle_command d env be self stdin text of
                None \<Rightarrow> None
              | Some r \<Rightarrow> Some (respond env request_id (returned r))))
      | CallRun request_id \<Rightarrow>
         (case depth of
            0 \<Rightarrow> None
          | Suc d \<Rightarrow>
             (case run d env be self stdin of
                None \<Rightarrow> None
              | Some r \<Rightarrow> Some (respond env request_id (ended r)))))"
| "ipc_loop depth env be self [] = Some (None, self, 0, [])"
| "ipc_loop depth env be self (line # rest) =
     (if \<not> running self then Some (None, self, 1, [])
      else if strip line = [] then
        (case ipc_loop depth env be self rest of
           None \<Rightarrow> None
         | Some (r, self', k, out) \<Rightarrow> Some (r, self', Suc k, out))
      else (case handle_command depth env be self rest (strip line) of
              None \<Rightarrow> None
            | Some (Inl e, self', k, w) \<Rightarrow> Some (Some e, self', Suc k, w)
            | Some (Inr response, self', k, w) \<Rightarrow>
               (case ipc_loop depth env be self' (drop k rest) of
                  None \<Rightarrow> None
                | Some (r, self'', k', out) \<Rightarrow>
                    Some (r, self'', Suc (k + k'),
                          w @ (if response \<noteq> [] then send_response response else [])
                            @ out))))"
| "run depth env be self stdin =
     (case dumps (PDict [(PStr ''cmd'', PStr ''ready''), (PStr ''id'', PInt 0)]) of
        Inl ft \<Rightarrow> Some (Some (raised env ft), self\<lparr>running := True\<rparr>, 0, [])
      | Inr ready_json \<Rightarrow>
         (case handle_command depth env be (self\<lparr>running := True\<rparr>) stdin ready_json of
            None \<Rightarrow> None
          | Some (Inl e, self', k, w) \<Rightarrow> Some (Some e, self', k, w)
          | Some (Inr ready_response, self', k, w) \<Rightarrow>
             (case ipc_loop depth env be self' (drop k stdin) of
                None \<Rightarrow> None
              | Some (r, self'', k', out) \<Rightarrow>
                  Some (r, self'', k + k',
                        w @ (if ready_response \<noteq> [] then send_response ready_response
                             else [])
                          @ out))))"

declare handle_command.simps [simp del]

declare run.simps [simp del]

subsection \<open>\<^verbatim>\<open>ExampleBackend\<close> and an environment for the examples\<close>

text \<open>
  The subclass at the end of bridge\_runtime.py, with its own \<^verbatim>\<open>__init__\<close>. Of the
  names the object has from \<^verbatim>\<open>object\<close>, \<^verbatim>\<open>__class__\<close> is given here (calling the class
  makes a new object and leaves this one alone); the examples use no other.
  \<^verbatim>\<open>calculate\<close> calls Python's \<^verbatim>\<open>eval\<close>, which is a parameter; an exception of
  \<^verbatim>\<open>eval\<close> that is not an \<^verbatim>\<open>Exception\<close> passes its \<^verbatim>\<open>except Exception\<close> clause.
\<close>

record example_state =
  counter :: int
  messages :: "pyval list"

definition example_init :: "example_state inst" where
  "example_init = init \<lparr>counter = 0, messages = []\<rparr>"

definition increment :: "pyenv \<Rightarrow> pyval option \<Rightarrow> example_state inst \<Rightarrow>
    outcome \<times> example_state inst \<times> string" where
  "increment env args self =
     (case args of
        None \<Rightarrow>
          (Return (PDict [(PStr ''count'', PInt (counter (user self) + 1))]),
           self\<lparr>user := (user self)\<lparr>counter := counter (user self) + 1\<rparr>\<rparr>, [])
      | Some params \<Rightarrow> (Raise (raised env (BadCall ''increment'' args)), self, []))"

definition get_count :: "pyenv \<Rightarrow> pyval option \<Rightarrow> example_state inst \<Rightarrow>
    outcome \<times> example_state inst \<times> string" where
  "get_count env args self =
     (case args of
        None \<Rightarrow> (Return (PDict [(PStr ''count'', PInt (counter (user self)))]), self, [])
      | Some params \<Rightarrow> (Raise (raised env (BadCall ''get_count'' args)), self, []))"

definition add_message :: "pyenv \<Rightarrow> pyval option \<Rightarrow> example_state inst \<Rightarrow>
    outcome \<times> example_state inst \<times> string" where
  "add_message env args self =
     (case args of
        Some (PDict [(PStr name, message)]) \<Rightarrow>
          if name = ''message''
          then (Return (PDict [(PStr ''count'',
                                PInt (int (length (messages (user self))) + 1))]),
                self\<lparr>user := (user self)\<lparr>messages := messages (user self) @ [message]\<rparr>\<rparr>,
                [])
          else (Raise (raised env (BadCall ''add_message'' args)), self, [])
      | _ \<Rightarrow> (Raise (raised env (BadCall ''add_message'' args)), self, []))"

definition get_messages :: "pyenv \<Rightarrow> pyval option \<Rightarrow> example_state inst \<Rightarrow>
    outcome \<times> example_state inst \<times> string" where
  "get_messages env args self =
     (case args of
        None \<Rightarrow>
          (Return (PDict [(PStr ''messages'', PList (messages (user self)))]), self, [])
      | Some params \<Rightarrow> (Raise (raised env (BadCall ''get_messages'' args)), self, []))"

definition echo :: "pyenv \<Rightarrow> pyval option \<Rightarrow> example_state inst \<Rightarrow>
    outcome \<times> example_state inst \<times> string" where
  "echo env args self =
     (case args of
        Some (PDict [(PStr name, data)]) \<Rightarrow>
          if name = ''data'' then (Return (PDict [(PStr ''echo'', data)]), self, [])
          else (Raise (raised env (BadCall ''echo'' args)), self, [])
      | _ \<Rightarrow> (Raise (raised env (BadCall ''echo'' args)), self, []))"

definition calculate :: "pyenv \<Rightarrow> (pyval \<Rightarrow> pyexc + pyval) \<Rightarrow> pyval option \<Rightarrow>
    example_state inst \<Rightarrow> outcome \<times> example_state inst \<times> string" where
  "calculate env eval args self =
     (case args of
        Some (PDict [(PStr name, expression)]) \<Rightarrow>
          if name = ''expression''
          then (case eval expression of
                  Inr result \<Rightarrow> (Return (PDict [(PStr ''result'', result)]), self, [])
                | Inl e \<Rightarrow>
                    if is_exception e
                    then (Raise (Exception (''Calculation error: '' @ str_exc e)
                                   (format_exc e)), self, [])
                    else (Raise e, self, []))
          else (Raise (raised env (BadCall ''calculate'' args)), self, [])
      | _ \<Rightarrow> (Raise (raised env (BadCall ''calculate'' args)), self, []))"

definition example_new :: "pyenv \<Rightarrow> pyval option \<Rightarrow> example_state inst \<Rightarrow>
    outcome \<times> example_state inst \<times> string" where
  \<comment> \<open>\<^verbatim>\<open>self.__class__()\<close>\<close>
  "example_new env args self =
     (case args of
        None \<Rightarrow> (Return (PObject ''ExampleBackend''), self, [])
      | Some params \<Rightarrow> (Raise (raised env (BadCall ''ExampleBackend'' args)), self, []))"

definition example_reinit :: "pyenv \<Rightarrow> pyval option \<Rightarrow> example_state inst \<Rightarrow>
    outcome \<times> example_state inst \<times> string" where
  \<comment> \<open>\<^verbatim>\<open>self.__init__()\<close>\<close>
  "example_reinit env args self =
     (case args of
        None \<Rightarrow> (Return PNone, example_init, [])
      | Some params \<Rightarrow> (Raise (raised env (BadCall ''__init__'' args)), self, []))"

definition example_members :: "pyenv \<Rightarrow> (pyval \<Rightarrow> pyexc + pyval) \<Rightarrow> example_state inst \<Rightarrow>
    string \<Rightarrow> example_state attr option" where
  "example_members env eval self name =
     (if name = ''counter'' then Some (Data (PInt (counter (user self))))
      else if name = ''messages'' then Some (Data (PList (messages (user self))))
      else if name = ''increment'' then Some (Callable (increment env))
      else if name = ''get_count'' then Some (Callable (get_count env))
      else if name = ''add_message'' then Some (Callable (add_message env))
      else if name = ''get_messages'' then Some (Callable (get_messages env))
      else if name = ''echo'' then Some (Callable (echo env))
      else if name = ''calculate'' then Some (Callable (calculate env eval))
      else if name = ''__class__'' then Some (Callable (example_new env))
      else if name = ''__init__'' then Some (Callable (example_reinit env))
      else None)"

definition example_backend :: "pyenv \<Rightarrow> (pyval \<Rightarrow> pyexc + pyval) \<Rightarrow> example_state backend" where
  "example_backend env eval = \<lparr>members = example_members env eval\<rparr>"

text \<open>
  An environment to run the examples in: \<^verbatim>\<open>json.loads\<close> and \<^verbatim>\<open>eval\<close> on the texts the
  examples use (the other texts are not used), the interpreter's messages, and a
  stand-in for the traceback text. \<^verbatim>\<open>exit()\<close> raises \<^verbatim>\<open>SystemExit\<close>.
\<close>

definition example_tb :: string where
  "example_tb = ''Traceback (most recent call last): ...''"

definition example_loads :: "string \<Rightarrow> pyexc + pyval" where
  \<open>example_loads s =
     (if s = ''{"cmd": "ready", "id": 0}''
      then Inr (PDict [(PStr ''cmd'', PStr ''ready''), (PStr ''id'', PInt 0)])
      else if s = ''{"cmd":"nonexistent","id":9,"params":{}}''
      then Inr (PDict [(PStr ''cmd'', PStr ''nonexistent''), (PStr ''id'', PInt 9),
                       (PStr ''params'', PDict [])])
      else if s = ''{"cmd":"increment","id":1,"params":{}}''
      then Inr (PDict [(PStr ''cmd'', PStr ''increment''), (PStr ''id'', PInt 1),
                       (PStr ''params'', PDict [])])
      else if s = ''{"cmd":"calculate","id":5,"params":{"expression":"1/0"}}''
      then Inr (PDict [(PStr ''cmd'', PStr ''calculate''), (PStr ''id'', PInt 5),
                       (PStr ''params'', PDict [(PStr ''expression'', PStr ''1/0'')])])
      else if s = ''{"cmd":"calculate","id":6,"params":{"expression":"exit()"}}''
      then Inr (PDict [(PStr ''cmd'', PStr ''calculate''), (PStr ''id'', PInt 6),
                       (PStr ''params'', PDict [(PStr ''expression'', PStr ''exit()'')])])
      else if s = ''{"cmd":"handle_command","id":2,"params":{"cmd_json":''
                  @ ''"{'' @ [CHR 0x5C] @ ''"cmd'' @ [CHR 0x5C] @ ''":'' @ [CHR 0x5C]
                  @ ''"shutdown'' @ [CHR 0x5C] @ ''",'' @ [CHR 0x5C] @ ''"id''
                  @ [CHR 0x5C] @ ''":3}"}}''
      then Inr (PDict [(PStr ''cmd'', PStr ''handle_command''), (PStr ''id'', PInt 2),
                       (PStr ''params'',
                        PDict [(PStr ''cmd_json'', PStr ''{"cmd":"shutdown","id":3}'')])])
      else if s = ''{"cmd":"__class__","id":7}''
      then Inr (PDict [(PStr ''cmd'', PStr ''__class__''), (PStr ''id'', PInt 7)])
      else if s = ''{"cmd":"__init__","id":8}''
      then Inr (PDict [(PStr ''cmd'', PStr ''__init__''), (PStr ''id'', PInt 8)])
      else if s = ''{"cmd":"shutdown","id":3}''
      then Inr (PDict [(PStr ''cmd'', PStr ''shutdown''), (PStr ''id'', PInt 3)])
      else if s = ''[1, 2]'' then Inr (PList [PInt 1, PInt 2])
      else Inl (JSONDecodeError ''Expecting value: line 1 column 1 (char 0)'' example_tb))\<close>

definition example_eval :: "pyval \<Rightarrow> pyexc + pyval" where
  "example_eval expression =
     (if expression = PStr ''1/0'' then Inl (Exception ''division by zero'' example_tb)
      else if expression = PStr ''exit()'' then Inl (BaseException ''None'' example_tb)
      else if expression = PStr ''1+1'' then Inr (PInt 2)
      else Inl (Exception ''invalid syntax'' example_tb))"

fun type_name :: "pyval \<Rightarrow> string" where
  "type_name PNone = ''NoneType''"
| "type_name (PBool b) = ''bool''"
| "type_name (PInt i) = ''int''"
| "type_name (PFloat r) = ''float''"
| "type_name (PStr s) = ''str''"
| "type_name (PList xs) = ''list''"
| "type_name (PDict kvs) = ''dict''"
| "type_name (PObject c) = c"

fun example_msg :: "fault \<Rightarrow> string" where
  "example_msg (NoAttribute v a) =
     [CHR 0x27] @ type_name v @ [CHR 0x27] @ '' object has no attribute ''
       @ [CHR 0x27] @ a @ [CHR 0x27]"
| "example_msg (AttrNameNotStr v) =
     ''attribute name must be string, not '' @ [CHR 0x27] @ type_name v @ [CHR 0x27]"
| "example_msg (NotSerializable v) =
     ''Object of type '' @ type_name v @ '' is not JSON serializable''"
| "example_msg (BadKey v) =
     ''keys must be str, int, float, bool or None, not '' @ type_name v"
| "example_msg (BadCall name args) = name @ ''() got arguments that do not fit''"
| "example_msg (NotJSONText v) =
     ''the JSON object must be str, bytes or bytearray, not '' @ type_name v"

definition example_env :: pyenv where
  "example_env = \<lparr>json_loads = example_loads, fault_msg = example_msg,
                   fault_tb = (\<lambda>ft. example_tb), sys_version = ''3.12.0''\<rparr>"

definition example :: "example_state backend" where
  "example = example_backend example_env example_eval"



subsection \<open>What an encoded text consists of\<close>

text \<open>
  The characters from space to tilde, and the floats whose text is one
  \<^verbatim>\<open>float.__repr__\<close> can give: digits, point, exponent and sign, or \<open>nan\<close>, \<open>inf\<close>,
  \<open>-inf\<close>.
\<close>

definition printable :: "char \<Rightarrow> bool" where
  "printable c = (32 \<le> (of_char c :: nat) \<and> (of_char c :: nat) \<le> 126)"

definition float_text :: "string \<Rightarrow> bool" where
  "float_text r = (r \<noteq> [] \<and> list_all (\<lambda>c. c \<in> set ''0123456789.e+-nainf'') r)"

fun float_key :: "pyval \<Rightarrow> bool" where
  "float_key (PFloat r) = float_text r"
| "float_key k = True"

fun floats_ok :: "pyval \<Rightarrow> bool"
and floats_ok_list :: "pyval list \<Rightarrow> bool"
and floats_ok_items :: "(pyval \<times> pyval) list \<Rightarrow> bool" where
  "floats_ok (PFloat r) = float_text r"
| "floats_ok (PList xs) = floats_ok_list xs"
| "floats_ok (PDict kvs) = floats_ok_items kvs"
| "floats_ok PNone = True"
| "floats_ok (PBool b) = True"
| "floats_ok (PInt i) = True"
| "floats_ok (PStr s) = True"
| "floats_ok (PObject c) = True"
| "floats_ok_list [] = True"
| "floats_ok_list (x # xs) = (floats_ok x \<and> floats_ok_list xs)"
| "floats_ok_items [] = True"
| "floats_ok_items ((k, v) # kvs) = (float_key k \<and> floats_ok v \<and> floats_ok_items kvs)"

section \<open>Properties\<close>

subsection \<open>Encoding the fixed parts of a response\<close>

lemma int_repr_0: "int_repr 0 = ''0''"
  by (simp add: int_repr_def dec.simps)

lemma encode_str_literals:
  \<open>encode_str ''id'' = ''"id"''\<close>
  \<open>encode_str ''status'' = ''"status"''\<close>
  \<open>encode_str ''error'' = ''"error"''\<close>
  \<open>encode_str ''success'' = ''"success"''\<close>
  \<open>encode_str ''result'' = ''"result"''\<close>
  \<open>encode_str ''traceback'' = ''"traceback"''\<close>
  \<open>encode_str ''cmd'' = ''"cmd"''\<close>
  \<open>encode_str ''event'' = ''"event"''\<close>
  \<open>encode_str ''ready'' = ''"ready"''\<close>
  \<open>encode_str ''shutdown'' = ''"shutdown"''\<close>
  \<open>encode_str ''python_version'' = ''"python_version"''\<close>
  by (simp_all add: encode_str_def esc_char_def)

lemma except_decode_returns:
  \<open>except_decode env self k w e =
     (Inr (''{"id": 0, "status": "error", "error": ''
           @ encode_str (''Invalid JSON: '' @ str_exc e) @ ''}''), self, k, w)\<close>
  by (simp add: except_decode_def encode_str_literals int_repr_0)

lemma except_generic_returns:
  \<open>except_generic env self k w e =
     (Inr (''{"id": 0, "status": "error", "error": ''
           @ encode_str (''Handler error: '' @ str_exc e)
           @ '', "traceback": '' @ encode_str (format_exc e) @ ''}''), self, k, w)\<close>
  by (simp add: except_generic_def encode_str_literals int_repr_0)

lemma dumps_success:
  \<open>dumps (success (PInt n) v) =
     (case dumps v of
        Inl ft \<Rightarrow> Inl ft
      | Inr vt \<Rightarrow> Inr (''{"id": '' @ int_repr n @ '', "status": "success", "result": '' @ vt
                       @ ''}''))\<close>
  by (simp add: success_def encode_str_literals split: sum.splits)

lemma dumps_failure:
  \<open>dumps (failure (PInt n) e) =
     Inr (''{"id": '' @ int_repr n @ '', "status": "error", "error": ''
          @ encode_str (str_exc e) @ '', "traceback": '' @ encode_str (format_exc e)
          @ ''}'')\<close>
  by (simp add: failure_def encode_str_literals)

lemma dumps_unknown_command:
  \<open>dumps (unknown_command (PInt n) name) =
     Inr (''{"id": '' @ int_repr n @ '', "status": "error", "error": ''
          @ encode_str (''Unknown command: '' @ name) @ ''}'')\<close>
  by (simp add: unknown_command_def encode_str_literals)

subsection \<open>Commands that do not nest\<close>

lemma handle_command_done:
  "dispatch env be self cmd_json = Done r \<Longrightarrow>
   handle_command depth env be self stdin cmd_json = Some r"
  by (simp add: handle_command.simps)

lemma dispatch_callable:
  assumes "json_loads env cmd_json = Inr (PDict kvs)"
    and "dict_get kvs ''cmd'' (PStr []) = PStr name"
    and "getattr env be self name = Some (Callable method)"
  shows "dispatch env be self cmd_json =
     Done (respond env (dict_get kvs ''id'' (PInt 0))
             (call method (dict_get kvs ''params'' (PDict [])) self))"
  using assms by (simp add: dispatch_def)

lemma handle_command_callable:
  assumes "json_loads env cmd_json = Inr (PDict kvs)"
    and "dict_get kvs ''cmd'' (PStr []) = PStr name"
    and "getattr env be self name = Some (Callable method)"
  shows "handle_command depth env be self stdin cmd_json =
     Some (respond env (dict_get kvs ''id'' (PInt 0))
             (call method (dict_get kvs ''params'' (PDict [])) self))"
  by (rule handle_command_done [OF dispatch_callable [OF assms]])


lemma handle_command_escape:
  assumes "json_loads env cmd_json = Inr (PDict kvs)"
    and "dict_get kvs ''cmd'' (PStr []) = PStr name"
    and "getattr env be self name = Some (Callable method)"
    and "method (if truthy (dict_get kvs ''params'' (PDict []))
                 then Some (dict_get kvs ''params'' (PDict [])) else None) self
         = (oc, self', w)"
    and "oc = Raise e \<or> oc = Await (Inl e)"
    and "\<not> is_exception e"
  shows "handle_command depth env be self stdin cmd_json = Some (Inl e, self', 0, w)"
  unfolding handle_command_callable [OF assms(1,2,3)]
  using assms(4,5,6)
  by (auto simp: call_def respond_def raise_in_try_def)

lemma handle_command_success:
  assumes "json_loads env cmd_json = Inr (PDict kvs)"
    and "dict_get kvs ''cmd'' (PStr []) = PStr name"
    and "dict_get kvs ''id'' (PInt 0) = PInt n"
    and "getattr env be self name = Some (Callable method)"
    and "method (if truthy (dict_get kvs ''params'' (PDict []))
                 then Some (dict_get kvs ''params'' (PDict [])) else None) self
         = (oc, self', w)"
    and "oc = Return v \<or> oc = Await (Inr v)"
    and "dumps v = Inr vt"
  shows \<open>handle_command depth env be self stdin cmd_json =
     Some (Inr (''{"id": '' @ int_repr n @ '', "status": "success", "result": '' @ vt
                @ ''}''), self', 0, w)\<close>
  unfolding handle_command_callable [OF assms(1,2,4)] assms(3)
  using assms(5,6,7)
  by (auto simp: call_def respond_def return_dumps_def dumps_success)

lemma dumps_dict_nonempty: "dumps (PDict kvs) = Inr t \<Longrightarrow> t \<noteq> []"
  by (auto split: sum.splits)

lemma return_dumps_dict:
  "\<exists>t. return_dumps env self k w (PDict kvs) = (Inr t, self, k, w) \<and> t \<noteq> []"
proof (cases "dumps (PDict kvs)")
  case (Inl ft)
  then show ?thesis by (simp add: return_dumps_def except_generic_returns)
next
  case (Inr t)
  then show ?thesis using dumps_dict_nonempty [OF Inr] by (simp add: return_dumps_def)
qed

lemma return_dumps_nonempty: "fst (return_dumps env self k w (PDict kvs)) \<noteq> Inr []"
  using return_dumps_dict [of env self k w kvs] by auto

lemma raise_in_try_nonempty: "fst (raise_in_try env request_id e self k w) \<noteq> Inr []"
  by (simp add: raise_in_try_def failure_def return_dumps_nonempty)

lemma respond_nonempty: "fst (respond env request_id c) \<noteq> Inr []"
proof -
  obtain oc s k w where c: "c = (oc, s, k, w)" by (metis prod_cases4)
  show ?thesis
  proof (cases oc)
    case (Return v)
    then show ?thesis
      unfolding c by (simp add: respond_def success_def return_dumps_nonempty)
  next
    case (Await r)
    then show ?thesis
      unfolding c
      by (cases r)
         (simp_all add: respond_def success_def return_dumps_nonempty raise_in_try_nonempty)
  next
    case (Raise e)
    then show ?thesis
      unfolding c by (simp add: respond_def raise_in_try_nonempty)
  qed
qed

lemma except_generic_nonempty: "fst (except_generic env self k w e) \<noteq> Inr []"
  by (simp add: except_generic_returns)

lemma except_outer_nonempty: "fst (except_outer env self k w e) \<noteq> Inr []"
  by (cases e) (simp_all add: except_outer_def except_decode_returns except_generic_returns)

lemma dispatch_nonempty:
  assumes "dispatch env be self cmd_json = Done r"
  shows "fst r \<noteq> Inr []"
proof (cases "json_loads env cmd_json")
  case (Inl e)
  then have "r = except_outer env self 0 [] e"
    using assms by (simp add: dispatch_def)
  then show ?thesis by (simp add: except_outer_nonempty)
next
  case (Inr cmd)
  show ?thesis
  proof (cases "\<exists>kvs. cmd = PDict kvs")
    case False
    then have "r = except_generic env self 0 [] (raised env (NoAttribute cmd ''get''))"
      using Inr assms by (cases cmd) (simp_all add: dispatch_def)
    then show ?thesis by (simp add: except_generic_nonempty)
  next
    case True
    then obtain kvs where cmd: "cmd = PDict kvs" by blast
    let ?id = "dict_get kvs ''id'' (PInt 0)"
    let ?params = "dict_get kvs ''params'' (PDict [])"
    show ?thesis
    proof (cases "\<exists>name. dict_get kvs ''cmd'' (PStr []) = PStr name")
      case False
      then have "r = except_generic env self 0 []
          (raised env (AttrNameNotStr (dict_get kvs ''cmd'' (PStr []))))"
        using Inr cmd assms
        by (cases "dict_get kvs ''cmd'' (PStr [])") (simp_all add: dispatch_def)
      then show ?thesis by (simp add: except_generic_nonempty)
    next
      case True
      then obtain name where name: "dict_get kvs ''cmd'' (PStr []) = PStr name" by blast
      show ?thesis
      proof (cases "getattr env be self name")
        case None
        then have "r = return_dumps env self 0 [] (unknown_command ?id name)"
          using Inr cmd name assms by (simp add: dispatch_def)
        then show ?thesis
          by (simp add: unknown_command_def return_dumps_nonempty)
      next
        case (Some a)
        show ?thesis
        proof (cases a)
          case (Data v)
          then have "r = return_dumps env self 0 [] (unknown_command ?id name)
              \<or> r = return_dumps env self 0 [] (not_callable ?id name)"
            using Inr cmd name Some assms by (cases v) (simp_all add: dispatch_def)
          then show ?thesis
            by (auto simp: unknown_command_def not_callable_def return_dumps_nonempty)
        next
          case (Callable f)
          then have "r = respond env ?id (call f ?params self)"
            using Inr cmd name Some assms by (simp add: dispatch_def)
          then show ?thesis by (simp add: respond_nonempty)
        next
          case (Reentrant m)
          have "r \<in> range (respond env ?id)"
          proof (cases m)
            case HandleCommand
            then show ?thesis
              using Inr cmd name Some Reentrant assms
              by (auto simp: dispatch_def Let_def split: option.splits pyval.splits)
          next
            case Run
            then show ?thesis
              using Inr cmd name Some Reentrant assms
              by (auto simp: dispatch_def Let_def split: option.splits)
          qed
          then show ?thesis by (auto simp: respond_nonempty)
        qed
      qed
    qed
  qed
qed

lemma handle_command_nonempty:
  assumes "handle_command depth env be self stdin cmd_json = Some (Inr t, self', k, w)"
  shows "t \<noteq> []"
proof -
  have "fst r \<noteq> Inr []" if "handle_command depth env be self stdin cmd_json = Some r" for r
  proof (cases "dispatch env be self cmd_json")
    case (Done r')
    then show ?thesis using that dispatch_nonempty [OF Done] by (simp add: handle_command.simps)
  next
    case (CallHandleCommand request_id inner)
    then have "r \<in> range (respond env request_id)"
      using that by (auto simp: handle_command.simps split: nat.splits option.splits)
    then show ?thesis by (auto simp: respond_nonempty)
  next
    case (CallRun request_id)
    then have "r \<in> range (respond env request_id)"
      using that by (auto simp: handle_command.simps split: nat.splits option.splits)
    then show ?thesis by (auto simp: respond_nonempty)
  qed
  from this [OF assms] show ?thesis by auto
qed

subsection \<open>Undecodable input\<close>

text \<open>
  Claim C2. When \<^verbatim>\<open>json.loads\<close> raises \<^verbatim>\<open>JSONDecodeError\<close> on the input text,
  \<^verbatim>\<open>handle_command\<close> raises nothing: it returns the encoded record with \<open>id\<close> 0,
  \<open>status\<close> \<open>"error"\<close> and the message \<open>Invalid JSON: \<close> followed by the decoder's
  message; the object is unchanged, no input is read and nothing is written.
\<close>

theorem invalid_json_gets_id_0:
  assumes "json_loads env cmd_json = Inl (JSONDecodeError m tb)"
  shows \<open>handle_command depth env be self stdin cmd_json =
     Some (Inr (''{"id": 0, "status": "error", "error": ''
                @ encode_str (''Invalid JSON: '' @ m) @ ''}''), self, 0, [])\<close>
proof -
  have "dispatch env be self cmd_json
      = Done (except_decode env self 0 [] (JSONDecodeError m tb))"
    using assms by (simp add: dispatch_def except_outer_def)
  from handle_command_done [OF this] show ?thesis
    by (simp add: except_decode_returns)
qed

theorem invalid_json_gets_id_0_witness:
  \<open>json_loads example_env ''not-json''
     = Inl (JSONDecodeError ''Expecting value: line 1 column 1 (char 0)'' example_tb)
   \<and> handle_command 0 example_env example example_init [] ''not-json''
     = Some (Inr (''{"id": 0, "status": "error", "error": ''
                  @ ''"Invalid JSON: Expecting value: line 1 column 1 (char 0)"}''),
             example_init, 0, [])\<close>
proof -
  have h: \<open>json_loads example_env ''not-json''
     = Inl (JSONDecodeError ''Expecting value: line 1 column 1 (char 0)'' example_tb)\<close>
    by (simp add: example_env_def example_loads_def)
  show ?thesis
    using h invalid_json_gets_id_0 [OF h, of 0 example example_init "[]"]
    by (simp add: encode_str_def esc_char_def)
qed

subsection \<open>Unknown command names\<close>

text \<open>
  Claim C3. A command (a decoded object with an integer \<open>id\<close>) whose name is not found
  on the backend object gets the encoded record with the command's \<open>id\<close>, \<open>status\<close>
  \<open>"error"\<close> and the message \<open>Unknown command: \<close> followed by the name; no handler
  runs, so the object is unchanged, no input is read and nothing is written.
\<close>

theorem unknown_command_names_the_command:
  assumes "json_loads env cmd_json = Inr (PDict kvs)"
    and "dict_get kvs ''cmd'' (PStr []) = PStr name"
    and "dict_get kvs ''id'' (PInt 0) = PInt n"
    and "getattr env be self name = None"
  shows \<open>handle_command depth env be self stdin cmd_json =
     Some (Inr (''{"id": '' @ int_repr n @ '', "status": "error", "error": ''
                @ encode_str (''Unknown command: '' @ name) @ ''}''), self, 0, [])\<close>
proof -
  have "dispatch env be self cmd_json
      = Done (return_dumps env self 0 [] (unknown_command (PInt n) name))"
    using assms by (simp add: dispatch_def)
  from handle_command_done [OF this] show ?thesis
    by (simp add: return_dumps_def dumps_unknown_command)
qed

theorem unknown_command_names_the_command_witness:
  \<open>json_loads example_env ''{"cmd":"nonexistent","id":9,"params":{}}''
     = Inr (PDict [(PStr ''cmd'', PStr ''nonexistent''), (PStr ''id'', PInt 9),
                   (PStr ''params'', PDict [])])
   \<and> getattr example_env example example_init ''nonexistent'' = None
   \<and> handle_command 0 example_env example example_init []
        ''{"cmd":"nonexistent","id":9,"params":{}}''
     = Some (Inr ''{"id": 9, "status": "error", "error": "Unknown command: nonexistent"}'',
             example_init, 0, [])\<close>
proof -
  let ?kvs = "[(PStr ''cmd'', PStr ''nonexistent''), (PStr ''id'', PInt 9),
               (PStr ''params'', PDict [])]"
  have h1: \<open>json_loads example_env ''{"cmd":"nonexistent","id":9,"params":{}}''
     = Inr (PDict ?kvs)\<close>
    by (simp add: example_env_def example_loads_def)
  have h2: "dict_get ?kvs ''cmd'' (PStr []) = PStr ''nonexistent''"
    by (simp add: dict_get_def)
  have h3: "dict_get ?kvs ''id'' (PInt 0) = PInt 9"
    by (simp add: dict_get_def)
  have h4: "getattr example_env example example_init ''nonexistent'' = None"
    by (simp add: getattr_def example_def example_backend_def example_members_def)
  show ?thesis
    using h1 h4 unknown_command_names_the_command [OF h1 h2 h3 h4, of 0 "[]"]
    by (simp add: encode_str_def esc_char_def int_repr_def dec.simps)
qed

subsection \<open>Decoded input that is not an object\<close>

text \<open>
  Claim C10. When the input decodes to a value that is not an object (a number, a
  string, an array, a boolean, \<^verbatim>\<open>None\<close>), \<^verbatim>\<open>cmd.get\<close> raises and the outer
  \<^verbatim>\<open>except Exception\<close> clause answers: the record has \<open>id\<close> 0, \<open>status\<close> \<open>"error"\<close>, the
  message \<open>Handler error: \<close> followed by the interpreter's message, and a traceback.
  It is not the record of the decode-error clause, whatever the message.
\<close>

theorem non_object_json_is_handler_error:
  assumes "json_loads env cmd_json = Inr v"
    and "\<nexists>kvs. v = PDict kvs"
  shows \<open>handle_command depth env be self stdin cmd_json =
     Some (Inr (''{"id": 0, "status": "error", "error": ''
                @ encode_str (''Handler error: '' @ fault_msg env (NoAttribute v ''get''))
                @ '', "traceback": '' @ encode_str (fault_tb env (NoAttribute v ''get''))
                @ ''}''), self, 0, [])
   \<and> (\<forall>m r. handle_command depth env be self stdin cmd_json = Some r \<longrightarrow>
          fst r \<noteq> Inr (''{"id": 0, "status": "error", "error": ''
                          @ encode_str (''Invalid JSON: '' @ m) @ ''}''))\<close>
proof -
  have "dispatch env be self cmd_json =
      Done (except_generic env self 0 [] (raised env (NoAttribute v ''get'')))"
    using assms by (cases v) (simp_all add: dispatch_def)
  from handle_command_done [OF this]
  have eq: "handle_command depth env be self stdin cmd_json =
      Some (except_generic env self 0 [] (raised env (NoAttribute v ''get'')))" .
  show ?thesis
    unfolding eq except_generic_returns
    by (simp add: raised_def encode_str_def esc_char_def)
qed

theorem non_object_json_is_handler_error_witness:
  \<open>json_loads example_env ''[1, 2]'' = Inr (PList [PInt 1, PInt 2])
   \<and> (\<nexists>kvs. PList [PInt 1, PInt 2] = PDict kvs)
   \<and> handle_command 0 example_env example example_init [] ''[1, 2]''
     = Some (Inr (''{"id": 0, "status": "error", "error": ''
                  @ ''"Handler error: '' @ [CHR 0x27] @ ''list'' @ [CHR 0x27]
                  @ '' object has no attribute '' @ [CHR 0x27] @ ''get'' @ [CHR 0x27]
                  @ ''", "traceback": "Traceback (most recent call last): ..."}''),
             example_init, 0, [])\<close>
proof -
  have h1: \<open>json_loads example_env ''[1, 2]'' = Inr (PList [PInt 1, PInt 2])\<close>
    by (simp add: example_env_def example_loads_def)
  have h2: "\<nexists>kvs. PList [PInt 1, PInt 2] = PDict kvs"
    by simp
  note t = non_object_json_is_handler_error [OF h1 h2, of 0 example example_init "[]",
      THEN conjunct1]
  show ?thesis
    using h1 h2 t
    by (simp add: encode_str_def esc_char_def example_env_def example_tb_def)
qed

subsection \<open>Results that cannot be encoded\<close>

text \<open>
  Claim C9. When the handler of a command with an integer \<open>id\<close> returns a value (at
  once or through an awaitable) that \<^verbatim>\<open>json.dumps\<close> rejects, the failure of
  \<^verbatim>\<open>json.dumps(response)\<close> is answered by the outer \<^verbatim>\<open>except Exception\<close> clause: the
  record has \<open>id\<close> 0 whatever the command's \<open>id\<close> was, the message
  \<open>Handler error: \<close> followed by the encoder's message, and a traceback. What the
  handler did to the object and wrote stays.
\<close>

theorem unencodable_result_loses_the_id:
  assumes "json_loads env cmd_json = Inr (PDict kvs)"
    and "dict_get kvs ''cmd'' (PStr []) = PStr name"
    and "dict_get kvs ''id'' (PInt 0) = PInt n"
    and "getattr env be self name = Some (Callable method)"
    and "method (if truthy (dict_get kvs ''params'' (PDict []))
                 then Some (dict_get kvs ''params'' (PDict [])) else None) self
         = (oc, self', w)"
    and "oc = Return v \<or> oc = Await (Inr v)"
    and "dumps v = Inl ft"
  shows \<open>handle_command depth env be self stdin cmd_json =
     Some (Inr (''{"id": 0, "status": "error", "error": ''
                @ encode_str (''Handler error: '' @ fault_msg env ft)
                @ '', "traceback": '' @ encode_str (fault_tb env ft) @ ''}''), self', 0, w)\<close>
  unfolding handle_command_callable [OF assms(1,2,4)] assms(3)
  using assms(5,6,7)
  by (auto simp: call_def respond_def return_dumps_def dumps_success except_generic_returns
      raised_def)

theorem unencodable_result_loses_the_id_witness:
  \<open>json_loads example_env ''{"cmd":"__class__","id":7}''
     = Inr (PDict [(PStr ''cmd'', PStr ''__class__''), (PStr ''id'', PInt 7)])
   \<and> getattr example_env example example_init ''__class__''
     = Some (Callable (example_new example_env))
   \<and> example_new example_env None example_init
     = (Return (PObject ''ExampleBackend''), example_init, [])
   \<and> dumps (PObject ''ExampleBackend'') = Inl (NotSerializable (PObject ''ExampleBackend''))
   \<and> handle_command 0 example_env example example_init [] ''{"cmd":"__class__","id":7}''
     = Some (Inr (''{"id": 0, "status": "error", "error": ''
             @ ''"Handler error: Object of type ExampleBackend is not JSON serializable", ''
             @ ''"traceback": "Traceback (most recent call last): ..."}''),
        example_init, 0, [])\<close>
proof -
  let ?kvs = "[(PStr ''cmd'', PStr ''__class__''), (PStr ''id'', PInt 7)]"
  have h1: \<open>json_loads example_env ''{"cmd":"__class__","id":7}'' = Inr (PDict ?kvs)\<close>
    by (simp add: example_env_def example_loads_def)
  have h2: "dict_get ?kvs ''cmd'' (PStr []) = PStr ''__class__''"
    by (simp add: dict_get_def)
  have h3: "dict_get ?kvs ''id'' (PInt 0) = PInt 7"
    by (simp add: dict_get_def)
  have h4: "getattr example_env example example_init ''__class__''
      = Some (Callable (example_new example_env))"
    by (simp add: getattr_def example_def example_backend_def example_members_def)
  have h5: "example_new example_env
      (if truthy (dict_get ?kvs ''params'' (PDict []))
       then Some (dict_get ?kvs ''params'' (PDict [])) else None) example_init
      = (Return (PObject ''ExampleBackend''), example_init, [])"
    by (simp add: dict_get_def example_new_def)
  have h6: "Return (PObject ''ExampleBackend'') = Return (PObject ''ExampleBackend'')
      \<or> Return (PObject ''ExampleBackend'') = Await (Inr (PObject ''ExampleBackend''))"
    by simp
  have h7: "dumps (PObject ''ExampleBackend'')
      = Inl (NotSerializable (PObject ''ExampleBackend''))"
    by simp
  show ?thesis
    using h1 h4 h5 h7 unencodable_result_loses_the_id [OF h1 h2 h3 h4 h5 h6 h7, of 0 "[]"]
    by (simp add: encode_str_def esc_char_def example_env_def example_tb_def dict_get_def)
qed

subsection \<open>The response carries the command's id\<close>

text \<open>
  Claim C1, as stated, fails: on \<^verbatim>\<open>ExampleBackend\<close> the command
  \<^verbatim>\<open>{"cmd":"__class__","id":7}\<close> names a callable (the class: calling it makes a new
  object), the result is not encodable, and the response carries \<open>id\<close> 0, not 7.
\<close>

theorem response_id_counterexample:
  \<open>json_loads example_env ''{"cmd":"__class__","id":7}''
     = Inr (PDict [(PStr ''cmd'', PStr ''__class__''), (PStr ''id'', PInt 7)])
   \<and> (\<exists>f. getattr example_env example example_init ''__class__'' = Some (Callable f))
   \<and> (\<exists>rest. handle_command 0 example_env example example_init []
                 ''{"cmd":"__class__","id":7}''
        = Some (Inr (''{"id": 0, "status": "error", '' @ rest), example_init, 0, []))
   \<and> (\<nexists>rest s k w. handle_command 0 example_env example example_init []
                 ''{"cmd":"__class__","id":7}''
        = Some (Inr (''{"id": 7, '' @ rest), s, k, w))\<close>
  by (simp add: handle_command.simps dispatch_def example_env_def example_loads_def
      getattr_def example_def example_backend_def example_members_def dict_get_def
      call_def respond_def example_new_def return_dumps_def success_def
      except_generic_returns raised_def)

text \<open>
  Claim C1, amended: for a command with an integer \<open>id\<close> whose name resolves to a
  callable, the response carries the command's \<open>id\<close> when the handler returns a value
  that \<^verbatim>\<open>json.dumps\<close> encodes (the record is then \<open>id\<close>, \<open>status\<close> \<open>"success"\<close>,
  \<open>result\<close>) and when it raises an exception that \<^verbatim>\<open>except Exception\<close> catches (\<open>id\<close>,
  \<open>status\<close> \<open>"error"\<close>, the message, the traceback); at once or through an awaitable,
  in both cases. (An exception that is not an \<^verbatim>\<open>Exception\<close> leaves \<^verbatim>\<open>handle_command\<close>
  and there is no response.)
\<close>

theorem response_id_is_command_id:
  assumes "json_loads env cmd_json = Inr (PDict kvs)"
    and "dict_get kvs ''cmd'' (PStr []) = PStr name"
    and "dict_get kvs ''id'' (PInt 0) = PInt n"
    and "getattr env be self name = Some (Callable method)"
    and "method (if truthy (dict_get kvs ''params'' (PDict []))
                 then Some (dict_get kvs ''params'' (PDict [])) else None) self
         = (oc, self', w)"
  shows \<open>((oc = Return v \<or> oc = Await (Inr v)) \<longrightarrow> dumps v = Inr vt \<longrightarrow>
            handle_command depth env be self stdin cmd_json =
              Some (Inr (''{"id": '' @ int_repr n @ '', "status": "success", "result": ''
                         @ vt @ ''}''), self', 0, w))
       \<and> ((oc = Raise e \<or> oc = Await (Inl e)) \<longrightarrow> is_exception e \<longrightarrow>
            handle_command depth env be self stdin cmd_json =
              Some (Inr (''{"id": '' @ int_repr n @ '', "status": "error", "error": ''
                         @ encode_str (str_exc e) @ '', "traceback": ''
                         @ encode_str (format_exc e) @ ''}''), self', 0, w))
       \<and> ((oc = Raise e \<or> oc = Await (Inl e)) \<longrightarrow> \<not> is_exception e \<longrightarrow>
            handle_command depth env be self stdin cmd_json = Some (Inl e, self', 0, w))\<close>
  unfolding handle_command_callable [OF assms(1,2,4)] assms(3)
  using assms(5)
  by (auto simp: call_def respond_def raise_in_try_def return_dumps_def dumps_success
      dumps_failure)

theorem response_id_is_command_id_witness:
  \<open>json_loads example_env ''{"cmd":"increment","id":1,"params":{}}''
     = Inr (PDict [(PStr ''cmd'', PStr ''increment''), (PStr ''id'', PInt 1),
                   (PStr ''params'', PDict [])])
   \<and> getattr example_env example example_init ''increment''
     = Some (Callable (increment example_env))
   \<and> dumps (PDict [(PStr ''count'', PInt 1)]) = Inr ''{"count": 1}''
   \<and> handle_command 0 example_env example example_init []
        ''{"cmd":"increment","id":1,"params":{}}''
     = Some (Inr ''{"id": 1, "status": "success", "result": {"count": 1}}'',
             example_init\<lparr>user := \<lparr>counter = 1, messages = []\<rparr>\<rparr>, 0, [])
   \<and> json_loads example_env ''{"cmd":"calculate","id":5,"params":{"expression":"1/0"}}''
     = Inr (PDict [(PStr ''cmd'', PStr ''calculate''), (PStr ''id'', PInt 5),
                   (PStr ''params'', PDict [(PStr ''expression'', PStr ''1/0'')])])
   \<and> getattr example_env example example_init ''calculate''
     = Some (Callable (calculate example_env example_eval))
   \<and> is_exception (Exception ''Calculation error: division by zero'' example_tb)
   \<and> handle_command 0 example_env example example_init []
        ''{"cmd":"calculate","id":5,"params":{"expression":"1/0"}}''
     = Some (Inr (''{"id": 5, "status": "error", "error": ''
                  @ ''"Calculation error: division by zero", ''
                  @ ''"traceback": "Traceback (most recent call last): ..."}''),
             example_init, 0, [])\<close>
proof -
  let ?k1 = "[(PStr ''cmd'', PStr ''increment''), (PStr ''id'', PInt 1),
              (PStr ''params'', PDict [])]"
  let ?s1 = "example_init\<lparr>user := \<lparr>counter = 1, messages = []\<rparr>\<rparr>"
  have a1: \<open>json_loads example_env ''{"cmd":"increment","id":1,"params":{}}''
      = Inr (PDict ?k1)\<close>
    by (simp add: example_env_def example_loads_def)
  have a2: "dict_get ?k1 ''cmd'' (PStr []) = PStr ''increment''"
    by (simp add: dict_get_def)
  have a3: "dict_get ?k1 ''id'' (PInt 0) = PInt 1"
    by (simp add: dict_get_def)
  have a4: "getattr example_env example example_init ''increment''
      = Some (Callable (increment example_env))"
    by (simp add: getattr_def example_def example_backend_def example_members_def)
  have a5: "increment example_env
      (if truthy (dict_get ?k1 ''params'' (PDict []))
       then Some (dict_get ?k1 ''params'' (PDict [])) else None) example_init
      = (Return (PDict [(PStr ''count'', PInt 1)]), ?s1, [])"
    by (simp add: dict_get_def increment_def example_init_def init_def)
  have a6: \<open>dumps (PDict [(PStr ''count'', PInt 1)]) = Inr ''{"count": 1}''\<close>
    by (simp add: encode_str_def esc_char_def int_repr_def dec.simps)
  let ?k2 = "[(PStr ''cmd'', PStr ''calculate''), (PStr ''id'', PInt 5),
              (PStr ''params'', PDict [(PStr ''expression'', PStr ''1/0'')])]"
  let ?e = "Exception ''Calculation error: division by zero'' example_tb"
  have b1: \<open>json_loads example_env ''{"cmd":"calculate","id":5,"params":{"expression":"1/0"}}''
      = Inr (PDict ?k2)\<close>
    by (simp add: example_env_def example_loads_def)
  have b2: "dict_get ?k2 ''cmd'' (PStr []) = PStr ''calculate''"
    by (simp add: dict_get_def)
  have b3: "dict_get ?k2 ''id'' (PInt 0) = PInt 5"
    by (simp add: dict_get_def)
  have b4: "getattr example_env example example_init ''calculate''
      = Some (Callable (calculate example_env example_eval))"
    by (simp add: getattr_def example_def example_backend_def example_members_def)
  have b5: "calculate example_env example_eval
      (if truthy (dict_get ?k2 ''params'' (PDict []))
       then Some (dict_get ?k2 ''params'' (PDict [])) else None) example_init
      = (Raise ?e, example_init, [])"
    by (simp add: dict_get_def calculate_def example_eval_def)
  have b6: "is_exception ?e" by simp
  have c1: \<open>handle_command 0 example_env example example_init []
        ''{"cmd":"increment","id":1,"params":{}}''
      = Some (Inr ''{"id": 1, "status": "success", "result": {"count": 1}}'', ?s1, 0, [])\<close>
    using response_id_is_command_id [OF a1 a2 a3 a4 a5,
        of "PDict [(PStr ''count'', PInt 1)]" \<open>''{"count": 1}''\<close> 0 "[]"] a6
    by (simp add: int_repr_def dec.simps)
  have c2: \<open>handle_command 0 example_env example example_init []
        ''{"cmd":"calculate","id":5,"params":{"expression":"1/0"}}''
      = Some (Inr (''{"id": 5, "status": "error", "error": ''
                  @ ''"Calculation error: division by zero", ''
                  @ ''"traceback": "Traceback (most recent call last): ..."}''),
             example_init, 0, [])\<close>
    using response_id_is_command_id [OF b1 b2 b3 b4 b5, of _ _ 0 "[]" ?e] b6
    by (simp add: int_repr_def dec.simps encode_str_def esc_char_def example_tb_def)
  show ?thesis
    using a1 a4 a6 b1 b4 b6 c1 c2 by simp
qed

subsection \<open>The loop after a command\<close>

lemma ipc_loop_step:
  assumes "running self" and "strip line \<noteq> []"
    and "handle_command depth env be self rest (strip line) = Some (Inr response, self', k, w)"
  shows "ipc_loop depth env be self (line # rest) =
     (case ipc_loop depth env be self' (drop k rest) of
        None \<Rightarrow> None
      | Some (r, self'', k', out) \<Rightarrow>
          Some (r, self'', Suc (k + k'), w @ send_response response @ out))"
  using assms handle_command_nonempty [OF assms(3)] by simp


lemma ipc_loop_stopped:
  "\<not> running self \<Longrightarrow>
   ipc_loop depth env be self stdin = Some (None, self, if stdin = [] then 0 else 1, [])"
  by (cases stdin) simp_all




subsection \<open>The readiness handshake\<close>

lemma dumps_ready_command:
  \<open>dumps (PDict [(PStr ''cmd'', PStr ''ready''), (PStr ''id'', PInt 0)])
     = Inr ''{"cmd": "ready", "id": 0}''\<close>
  by (simp add: encode_str_literals int_repr_0)

lemma getattr_builtin:
  assumes "members be self name = None" and "name = ''ready'' \<or> name = ''shutdown''"
  shows "getattr env be self name
     = Some (Callable (if name = ''ready'' then ready env else shutdown env))"
  using assms by (auto simp: getattr_def)

lemma run_unfold:
  \<open>run depth env be self stdin =
     (case handle_command depth env be (self\<lparr>running := True\<rparr>) stdin
             ''{"cmd": "ready", "id": 0}'' of
        None \<Rightarrow> None
      | Some (Inl e, self', k, w) \<Rightarrow> Some (Some e, self', k, w)
      | Some (Inr ready_response, self', k, w) \<Rightarrow>
         (case ipc_loop depth env be self' (drop k stdin) of
            None \<Rightarrow> None
          | Some (r, self'', k', out) \<Rightarrow>
              Some (r, self'', k + k',
                    w @ (if ready_response \<noteq> [] then send_response ready_response else [])
                      @ out)))\<close>
  unfolding run.simps dumps_ready_command by simp

text \<open>
  Claim C5. \<^verbatim>\<open>run\<close> sets the running flag, then passes the text of the command
  \<open>ready\<close> with \<open>id\<close> 0 to \<^verbatim>\<open>handle_command\<close>. When that returns a response, the
  response is not empty and is written as a frame; with no input at all this is
  everything \<^verbatim>\<open>run\<close> writes, and with any input everything the loop writes comes after
  it. Before the frame there is only what the \<^verbatim>\<open>ready\<close> handler itself wrote during the
  call. (When the call ends with an exception instead, \<^verbatim>\<open>run\<close> ends with it and has
  written nothing else.) The \<^verbatim>\<open>ready\<close> of \<^verbatim>\<open>PythonBridge\<close> returns and writes nothing:
  when the backend does not redefine it (and the decoder decodes the handshake text),
  the first bytes written are the frame of the record \<open>id\<close> 0, \<open>status\<close> \<open>"success"\<close>,
  \<open>result\<close> the \<open>"ready"\<close> status with the interpreter's version.
\<close>

theorem ready_response_is_written_first:
  assumes \<open>json_loads env ''{"cmd": "ready", "id": 0}''
      = Inr (PDict [(PStr ''cmd'', PStr ''ready''), (PStr ''id'', PInt 0)])\<close>
  shows \<open>(\<forall>stdin response self' k w.
            handle_command depth env be (self\<lparr>running := True\<rparr>) stdin
              ''{"cmd": "ready", "id": 0}'' = Some (Inr response, self', k, w) \<longrightarrow>
            response \<noteq> []
          \<and> (stdin = [] \<longrightarrow>
               run depth env be self stdin = Some (None, self', k, w @ send_response response))
          \<and> run depth env be self stdin =
               (case ipc_loop depth env be self' (drop k stdin) of
                  None \<Rightarrow> None
                | Some (r, self'', k', out) \<Rightarrow>
                    Some (r, self'', k + k', w @ send_response response @ out)))
       \<and> (\<forall>stdin e self' k w.
            handle_command depth env be (self\<lparr>running := True\<rparr>) stdin
              ''{"cmd": "ready", "id": 0}'' = Some (Inl e, self', k, w) \<longrightarrow>
            run depth env be self stdin = Some (Some e, self', k, w))
       \<and> (members be (self\<lparr>running := True\<rparr>) ''ready'' = None \<longrightarrow>
            (\<forall>stdin. run depth env be self stdin =
               (case ipc_loop depth env be (self\<lparr>running := True\<rparr>) stdin of
                  None \<Rightarrow> None
                | Some (r, self'', k, out) \<Rightarrow>
                    Some (r, self'', k,
                     send_response
                       (''{"id": 0, "status": "success", "result": ''
                        @ ''{"status": "ready", "python_version": ''
                        @ encode_str (sys_version env) @ ''}}'') @ out))))\<close>
proof -
  let ?s = "self\<lparr>running := True\<rparr>"
  let ?text = \<open>''{"cmd": "ready", "id": 0}''\<close>
  have a: "response \<noteq> []
          \<and> (stdin = [] \<longrightarrow>
               run depth env be self stdin = Some (None, self', k, w @ send_response response))
          \<and> run depth env be self stdin =
               (case ipc_loop depth env be self' (drop k stdin) of
                  None \<Rightarrow> None
                | Some (r, self'', k', out) \<Rightarrow>
                    Some (r, self'', k + k', w @ send_response response @ out))"
    if hc: "handle_command depth env be ?s stdin ?text = Some (Inr response, self', k, w)"
    for stdin response self' k w
    using hc handle_command_nonempty [OF hc] unfolding run_unfold
    by (auto split: option.splits)
  have b: "run depth env be self stdin = Some (Some e, self', k, w)"
    if hc: "handle_command depth env be ?s stdin ?text = Some (Inl e, self', k, w)"
    for stdin e self' k w
    using hc unfolding run_unfold by simp
  have c: \<open>run depth env be self stdin =
       (case ipc_loop depth env be ?s stdin of
          None \<Rightarrow> None
        | Some (r, self'', k, out) \<Rightarrow>
            Some (r, self'', k,
             send_response
               (''{"id": 0, "status": "success", "result": ''
                @ ''{"status": "ready", "python_version": ''
                @ encode_str (sys_version env) @ ''}}'') @ out))\<close>
    if none: "members be ?s ''ready'' = None" for stdin
  proof -
    let ?kvs = "[(PStr ''cmd'', PStr ''ready''), (PStr ''id'', PInt 0)]"
    have g: "getattr env be ?s ''ready'' = Some (Callable (ready env))"
      using getattr_builtin [OF none, of env] by simp
    have call: "ready env (if truthy (dict_get ?kvs ''params'' (PDict []))
                           then Some (dict_get ?kvs ''params'' (PDict [])) else None) ?s
        = (Return (PDict [(PStr ''status'', PStr ''ready''),
                          (PStr ''python_version'', PStr (sys_version env))]), ?s, [])"
      by (simp add: dict_get_def ready_def)
    have hc': \<open>handle_command depth env be ?s stdin ?text =
        Some (Inr (''{"id": 0, "status": "success", "result": ''
              @ ''{"status": "ready", "python_version": ''
              @ encode_str (sys_version env) @ ''}}''), ?s, 0, [])\<close>
      using handle_command_success [OF assms _ _ g call, of 0]
      by (simp add: dict_get_def encode_str_literals int_repr_0)
    show ?thesis
      unfolding run_unfold hc' by (simp split: option.splits)
  qed
  show ?thesis
    using a b c by (intro conjI allI impI) blast+
qed

theorem ready_response_is_written_first_witness:
  \<open>json_loads example_env ''{"cmd": "ready", "id": 0}''
      = Inr (PDict [(PStr ''cmd'', PStr ''ready''), (PStr ''id'', PInt 0)])
   \<and> members example (example_init\<lparr>running := True\<rparr>) ''ready'' = None
   \<and> run 0 example_env example example_init []
      = Some (None, example_init\<lparr>running := True\<rparr>, 0,
         ''{"id": 0, "status": "success", "result": ''
         @ ''{"status": "ready", "python_version": "3.12.0"}}'' @ [CHR 0x00])\<close>
proof -
  have h1: \<open>json_loads example_env ''{"cmd": "ready", "id": 0}''
      = Inr (PDict [(PStr ''cmd'', PStr ''ready''), (PStr ''id'', PInt 0)])\<close>
    by (simp add: example_env_def example_loads_def)
  have h2: "members example (example_init\<lparr>running := True\<rparr>) ''ready'' = None"
    by (simp add: example_def example_backend_def example_members_def)
  note t = ready_response_is_written_first [OF h1, of 0 example example_init,
      THEN conjunct2, THEN conjunct2, rule_format, OF h2, of "[]"]
  have \<open>run 0 example_env example example_init []
      = Some (None, example_init\<lparr>running := True\<rparr>, 0,
         send_response (''{"id": 0, "status": "success", "result": ''
            @ ''{"status": "ready", "python_version": ''
            @ encode_str (sys_version example_env) @ ''}}''))\<close>
    unfolding t by simp
  then show ?thesis
    using h1 h2
    by (simp add: send_response_def utf8_encode_def encode_str_def esc_char_def
        example_env_def)
qed

subsection \<open>Shutdown\<close>

text \<open>
  Claim C6. The \<^verbatim>\<open>shutdown\<close> of \<^verbatim>\<open>PythonBridge\<close>, called without arguments, clears the
  running flag and returns the \<open>"shutdown"\<close> status. A loop that finds the flag cleared
  stops at once, whatever the input and the backend: it calls nothing, writes nothing
  and leaves the object as it is (the line it has just read is lost). So when a line
  of the loop is a shutdown command with an integer \<open>id\<close> and no parameters, on a
  backend that does not redefine \<^verbatim>\<open>shutdown\<close>, the loop writes the success response of
  that command and nothing for any line after it.
\<close>

theorem shutdown_ends_the_loop:
  assumes "running self" and "strip line \<noteq> []"
    and "json_loads env (strip line) = Inr (PDict kvs)"
    and "dict_get kvs ''cmd'' (PStr []) = PStr ''shutdown''"
    and "dict_get kvs ''id'' (PInt 0) = PInt n"
    and "\<not> truthy (dict_get kvs ''params'' (PDict []))"
    and "members be self ''shutdown'' = None"
  shows \<open>shutdown env None self
           = (Return (PDict [(PStr ''status'', PStr ''shutdown'')]),
              self\<lparr>running := False\<rparr>, [])
       \<and> (\<forall>stdin. handle_command depth env be self stdin (strip line)
           = Some (Inr (''{"id": '' @ int_repr n
                        @ '', "status": "success", "result": {"status": "shutdown"}}''),
                   self\<lparr>running := False\<rparr>, 0, []))
       \<and> (\<forall>rest. ipc_loop depth env be (self\<lparr>running := False\<rparr>) rest
                    = Some (None, self\<lparr>running := False\<rparr>, if rest = [] then 0 else 1, []))
       \<and> (\<forall>rest. ipc_loop depth env be self (line # rest)
                    = Some (None, self\<lparr>running := False\<rparr>, if rest = [] then 1 else 2,
                       send_response
                         (''{"id": '' @ int_repr n
                          @ '', "status": "success", "result": {"status": "shutdown"}}'')))\<close>
proof -
  let ?s = "self\<lparr>running := False\<rparr>"
  let ?response = \<open>''{"id": '' @ int_repr n
      @ '', "status": "success", "result": {"status": "shutdown"}}''\<close>
  have sd: "shutdown env None self
      = (Return (PDict [(PStr ''status'', PStr ''shutdown'')]), ?s, [])"
    by (simp add: shutdown_def)
  have g: "getattr env be self ''shutdown'' = Some (Callable (shutdown env))"
    using getattr_builtin [OF assms(7), of env] by simp
  have call: "shutdown env (if truthy (dict_get kvs ''params'' (PDict []))
                            then Some (dict_get kvs ''params'' (PDict [])) else None) self
      = (Return (PDict [(PStr ''status'', PStr ''shutdown'')]), ?s, [])"
    using assms(6) sd by simp
  have hc: "handle_command depth env be self stdin (strip line)
      = Some (Inr ?response, ?s, 0, [])" for stdin
    using handle_command_success [OF assms(3,4,5) g call]
    by (simp add: encode_str_literals)
  have stopped: "ipc_loop depth env be ?s rest
      = Some (None, ?s, if rest = [] then 0 else 1, [])" for rest
    by (rule ipc_loop_stopped) simp
  have "ipc_loop depth env be self (line # rest)
      = Some (None, ?s, if rest = [] then 1 else 2, send_response ?response)" for rest
    unfolding ipc_loop_step [OF assms(1,2) hc] using stopped [of rest] by simp
  then show ?thesis
    using sd hc stopped by blast
qed

theorem shutdown_ends_the_loop_witness:
  \<open>running (example_init\<lparr>running := True\<rparr>)
   \<and> strip (''{"cmd":"shutdown","id":3}'' @ [CHR 0x0A]) = ''{"cmd":"shutdown","id":3}''
   \<and> members example (example_init\<lparr>running := True\<rparr>) ''shutdown'' = None
   \<and> ipc_loop 0 example_env example (example_init\<lparr>running := True\<rparr>)
        [''{"cmd":"shutdown","id":3}'' @ [CHR 0x0A],
         ''{"cmd":"increment","id":1,"params":{}}'' @ [CHR 0x0A]]
       = Some (None, example_init, 2,
          ''{"id": 3, "status": "success", "result": {"status": "shutdown"}}''
          @ [CHR 0x00])\<close>
proof -
  let ?l = \<open>''{"cmd":"shutdown","id":3}'' @ [CHR 0x0A]\<close>
  let ?s0 = "example_init\<lparr>running := True\<rparr>"
  let ?kvs = "[(PStr ''cmd'', PStr ''shutdown''), (PStr ''id'', PInt 3)]"
  have st: \<open>strip ?l = ''{"cmd":"shutdown","id":3}''\<close>
    by (simp add: strip_def isspace_def)
  have h1: "running ?s0" by simp
  have h2: "strip ?l \<noteq> []" unfolding st by simp
  have h3: "json_loads example_env (strip ?l) = Inr (PDict ?kvs)"
    unfolding st by (simp add: example_env_def example_loads_def)
  have h4: "dict_get ?kvs ''cmd'' (PStr []) = PStr ''shutdown''"
    by (simp add: dict_get_def)
  have h5: "dict_get ?kvs ''id'' (PInt 0) = PInt 3"
    by (simp add: dict_get_def)
  have h6: "\<not> truthy (dict_get ?kvs ''params'' (PDict []))"
    by (simp add: dict_get_def)
  have h7: "members example ?s0 ''shutdown'' = None"
    by (simp add: example_def example_backend_def example_members_def)
  have restored: "?s0\<lparr>running := False\<rparr> = example_init"
    by (simp add: example_init_def init_def)
  note loop = shutdown_ends_the_loop [OF h1 h2 h3 h4 h5 h6 h7, of 0,
      THEN conjunct2, THEN conjunct2, THEN conjunct2, rule_format]
  show ?thesis
    using st h1 h7 loop [of "[''{\"cmd\":\"increment\",\"id\":1,\"params\":{}}'' @ [CHR 0x0A]]"]
      restored
    by (simp add: send_response_def utf8_encode_def int_repr_def dec.simps
        del: ipc_loop.simps)
qed

subsection \<open>Frames\<close>

lemma printable_literals:
  "list_all printable ''0123456789abcdef''"
  "list_all printable ''0123456789.e+-nainf''"
  "list_all printable ''NaN''"
  "list_all printable ''Infinity''"
  "list_all printable ''-Infinity''"
  by (simp_all add: printable_def)

lemma printable_hexdigit: "printable (hexdigit n)"
proof -
  have "n mod 16 < length ''0123456789abcdef''" by simp
  then show ?thesis
    unfolding hexdigit_def using printable_literals(1) list_all_length by blast
qed

lemma printable_digit: "n < 10 \<Longrightarrow> printable (''0123456789'' ! n)"
proof -
  assume "n < 10"
  then have "n < length ''0123456789''" by simp
  moreover have "list_all printable ''0123456789''" by (simp add: printable_def)
  ultimately show ?thesis using list_all_length by blast
qed

lemma printable_esc_char: "list_all printable (esc_char c)"
  by (simp add: esc_char_def hex4_def printable_hexdigit) (simp add: printable_def)

lemma printable_concat: "(\<And>x. x \<in> set xs \<Longrightarrow> list_all P (f x)) \<Longrightarrow> list_all P (concat (map f xs))"
  by (induction xs) simp_all

lemma printable_encode_str: "list_all printable (encode_str s)"
  unfolding encode_str_def
  by (simp add: printable_concat printable_esc_char) (simp add: printable_def)

lemma printable_dec: "list_all printable (dec n)"
proof (induction n rule: dec.induct)
  case (1 n)
  show ?case
  proof (cases "n < 10")
    case True
    then show ?thesis by (simp add: dec.simps [of n] printable_digit)
  next
    case False
    then show ?thesis using 1 by (simp add: dec.simps [of n] printable_digit)
  qed
qed

lemma printable_int_repr: "list_all printable (int_repr i)"
  by (simp add: int_repr_def printable_dec) (simp add: printable_def)

lemma printable_floatstr:
  assumes "float_text r"
  shows "list_all printable (floatstr r)"
proof -
  have "list_all printable r"
    using assms printable_literals(2) unfolding float_text_def list_all_iff by blast
  then show ?thesis
    using printable_literals(3,4,5) by (simp add: floatstr_def)
qed

lemma printable_encode_key:
  "float_key k \<Longrightarrow> encode_key k = Inr t \<Longrightarrow> list_all printable t"
  by (cases k) (auto simp: printable_encode_str)

lemma printable_join:
  "list_all printable sep \<Longrightarrow> list_all (list_all printable) ts \<Longrightarrow> list_all printable (join sep ts)"
  by (induction sep ts rule: join.induct) simp_all

lemma printable_chars:
  "printable (CHR ''['')" "printable (CHR '']'')" "printable (CHR ''{'')"
  "printable (CHR ''}'')" "printable (CHR '','')" "printable (CHR '' '')"
  "printable (CHR '':'')"
  by (simp_all add: printable_def)

lemma printable_dumps:
  "floats_ok v \<Longrightarrow> dumps v = Inr t \<Longrightarrow> list_all printable t"
  "floats_ok_list xs \<Longrightarrow> dumps_list xs = Inr ts \<Longrightarrow> list_all (list_all printable) ts"
  "floats_ok_items kvs \<Longrightarrow> dumps_items kvs = Inr ts \<Longrightarrow> list_all (list_all printable) ts"
proof (induction v and xs and kvs arbitrary: t and ts and ts rule: dumps_dumps_list_dumps_items.induct)
  case 1
  then show ?case by (auto simp: printable_def)
next
  case (2 b)
  then show ?case by (auto simp: printable_def)
next
  case (3 i)
  then show ?case by (auto simp: printable_int_repr)
next
  case (4 r)
  then show ?case by (auto simp: printable_floatstr)
next
  case (5 s)
  then show ?case by (auto simp: printable_encode_str)
next
  case (6 xs)
  then obtain ts where ts: "dumps_list xs = Inr ts" and t: "t = ''['' @ join '', '' ts @ '']''"
    by (auto split: sum.splits)
  have "list_all (list_all printable) ts" using 6 ts by simp
  then have "list_all printable (join '', '' ts)"
    by (intro printable_join) (simp_all add: printable_chars)
  then show ?case unfolding t by (simp add: printable_chars)
next
  case (7 kvs)
  then obtain ts where ts: "dumps_items kvs = Inr ts" and t: "t = ''{'' @ join '', '' ts @ ''}''"
    by (auto split: sum.splits)
  have "list_all (list_all printable) ts" using 7 ts by simp
  then have "list_all printable (join '', '' ts)"
    by (intro printable_join) (simp_all add: printable_chars)
  then show ?case unfolding t by (simp add: printable_chars)
next
  case (8 c)
  then show ?case by simp
next
  case 9
  then show ?case by simp
next
  case (10 x xs)
  then show ?case by (auto split: sum.splits)
next
  case 11
  then show ?case by simp
next
  case (12 k v kvs)
  from "12.prems" obtain kt vt ts' where
    kt: "encode_key k = Inr kt" and vt: "dumps v = Inr vt"
    and ts': "dumps_items kvs = Inr ts'" and ts: "ts = (kt @ '': '' @ vt) # ts'"
    by (auto split: sum.splits)
  have "list_all printable kt" using printable_encode_key [OF _ kt] "12.prems" by simp
  moreover have "list_all printable vt" using "12.IH"(1) [OF kt _ vt] "12.prems" by simp
  moreover have "list_all (list_all printable) ts'"
    using "12.IH"(2) [OF kt vt _ ts'] "12.prems" by simp
  ultimately show ?case unfolding ts by (simp add: printable_chars)
qed

lemma utf8_encode_printable: "list_all printable s \<Longrightarrow> utf8_encode s = s"
  unfolding utf8_encode_def by (induction s) (simp_all add: printable_def)

lemma printable_not_null: "list_all printable s \<Longrightarrow> CHR 0x00 \<notin> set s"
  by (auto simp: list_all_iff printable_def)

lemma count_list_absent: "x \<notin> set xs \<Longrightarrow> count_list xs x = 0"
  by (induction xs) auto

lemma frame_of_printable:
  assumes "list_all printable t"
  shows "send_response t = t @ [CHR 0x00]"
    and "count_list (send_response t) (CHR 0x00) = 1"
    and "last (send_response t) = CHR 0x00"
  using assms printable_not_null [OF assms]
  by (simp_all add: send_response_def utf8_encode_printable count_list_absent)

text \<open>
  Claim C7. For every record whose floats have a text \<^verbatim>\<open>float.__repr__\<close> can give,
  the text \<^verbatim>\<open>json.dumps\<close> returns consists of characters from space to tilde: it has
  no null byte, its bytes are its characters, and the frame \<^verbatim>\<open>send_response\<close> writes
  is that text followed by the one null byte of the frame. The frame \<^verbatim>\<open>send_event\<close>
  writes for an event is such a frame.
\<close>

theorem frame_has_one_sentinel:
  assumes "floats_ok v" and "dumps v = Inr t"
  shows "CHR 0x00 \<notin> set t
     \<and> list_all printable t
     \<and> send_response t = t @ [CHR 0x00]
     \<and> count_list (send_response t) (CHR 0x00) = 1
     \<and> last (send_response t) = CHR 0x00
     \<and> (\<forall>env event_type data. v = PDict [(PStr ''cmd'', PStr event_type),
                (PStr ''status'', PStr ''event''), (PStr ''result'', data)] \<longrightarrow>
            send_event env event_type data = Inr (t @ [CHR 0x00]))"
proof -
  have p: "list_all printable t"
    using printable_dumps(1) [OF assms] .
  have ev: "send_event env event_type data = Inr (t @ [CHR 0x00])"
    if "v = PDict [(PStr ''cmd'', PStr event_type), (PStr ''status'', PStr ''event''),
                   (PStr ''result'', data)]" for env event_type data
    using assms(2) frame_of_printable(1) [OF p] unfolding that send_event_def by simp
  show ?thesis
    using p printable_not_null [OF p] frame_of_printable [OF p] ev
    by (intro conjI allI impI) assumption+
qed

theorem frame_has_one_sentinel_witness:
  \<open>floats_ok (PDict [(PStr ''cmd'', PStr ''tick''), (PStr ''status'', PStr ''event''),
                     (PStr ''result'', PList [PStr [CHR 0x00, CHR ''a''], PFloat ''1.5''])])
   \<and> dumps (PDict [(PStr ''cmd'', PStr ''tick''), (PStr ''status'', PStr ''event''),
                   (PStr ''result'', PList [PStr [CHR 0x00, CHR ''a''], PFloat ''1.5''])])
      = Inr (''{"cmd": "tick", "status": "event", "result": ["''
             @ [CHR 0x5C] @ ''u0000a", 1.5]}'')
   \<and> send_event example_env ''tick'' (PList [PStr [CHR 0x00, CHR ''a''], PFloat ''1.5''])
      = Inr (''{"cmd": "tick", "status": "event", "result": ["''
             @ [CHR 0x5C] @ ''u0000a", 1.5]}'' @ [CHR 0x00])
   \<and> count_list
        (send_response (''{"cmd": "tick", "status": "event", "result": ["''
                        @ [CHR 0x5C] @ ''u0000a", 1.5]}'')) (CHR 0x00) = 1\<close>
proof -
  let ?data = "PList [PStr [CHR 0x00, CHR ''a''], PFloat ''1.5'']"
  let ?v = "PDict [(PStr ''cmd'', PStr ''tick''), (PStr ''status'', PStr ''event''),
                   (PStr ''result'', ?data)]"
  let ?t = \<open>''{"cmd": "tick", "status": "event", "result": ["''
             @ [CHR 0x5C] @ ''u0000a", 1.5]}''\<close>
  have h1: "floats_ok ?v" by (simp add: float_text_def)
  have e1: \<open>encode_str [CHR 0x00, CHR ''a''] = ''"'' @ [CHR 0x5C] @ ''u0000a"''\<close>
    by (simp add: encode_str_def esc_char_def hex4_def hexdigit_def)
  have e2: \<open>encode_str ''tick'' = ''"tick"''\<close>
    by (simp add: encode_str_def esc_char_def)
  have e3: "floatstr ''1.5'' = ''1.5''"
    by (simp add: floatstr_def)
  have h2: "dumps ?v = Inr ?t"
    by (simp add: e1 e2 e3 encode_str_literals)
  note t = frame_has_one_sentinel [OF h1 h2]
  note ev = t [THEN conjunct2, THEN conjunct2, THEN conjunct2, THEN conjunct2,
      THEN conjunct2, rule_format, of "''tick''" ?data example_env]
  note cnt = t [THEN conjunct2, THEN conjunct2, THEN conjunct2, THEN conjunct1]
  have "send_event example_env ''tick'' ?data = Inr (?t @ [CHR 0x00])"
    by (rule ev) simp
  then show ?thesis
    using h1 h2 cnt by (simp del: dumps.simps floats_ok.simps)
qed

subsection \<open>The running flag\<close>




















end
